theory Spec2Isabelle
  imports Complex_Main
begin

section \<open>Python values and the built-ins the program calls\<close>

text \<open>
  The feed, the IP service and the AI geocoder hand the program parsed JSON: Python
  \<open>None\<close>, \<open>bool\<close>, \<open>int\<close>, \<open>float\<close>, \<open>str\<close>, \<open>list\<close> and \<open>dict\<close> values. A \<open>dict\<close> is an
  association list in insertion order (its keys are distinct, as a \<open>dict\<close>'s are). The
  type \<open>'f\<close> stands for Python's \<open>float\<close>; no arithmetic on it is modelled, values are
  only carried through. Strings are ASCII: a \<open>char\<close> is one character.
\<close>

datatype 'f json =
    JNull
  | JBool bool
  | JInt int
  | JFloat 'f
  | JStr string
  | JList "'f json list"
  | JObj "(string \<times> 'f json) list"

text \<open>The exception classes that the modelled statements can raise.\<close>

datatype exn = KeyError | IndexError | TypeError | ValueError | AttributeError | OverflowError

text \<open>
  Built-ins of Python and its standard library whose results depend on floating point
  rounding, on the clock, on the platform or on a grammar the repository does not
  define. They are parameters of the model; \<open>None\<close> (or \<open>Inl\<close>) is the built-in raising.
  \<^item> \<open>int_of_float x\<close> is \<open>int(x)\<close>: \<open>ValueError\<close> on a NaN, \<open>OverflowError\<close> on an infinity;
  \<^item> \<open>float_of_int n\<close> is \<open>float(n)\<close>: \<open>None\<close> is \<open>OverflowError\<close>;
  \<^item> \<open>float_of_str s\<close> is \<open>float(s)\<close>: \<open>None\<close> is \<open>ValueError\<close>;
  \<^item> \<open>float_nonzero x\<close> is \<open>bool(x)\<close>;
  \<^item> \<open>fromisoformat s\<close> is \<open>datetime.fromisoformat(s)\<close>: \<open>None\<close> is \<open>ValueError\<close>;
  \<^item> \<open>now_utc\<close> is the value of \<open>datetime.now(timezone.utc)\<close> at the call;
  \<^item> \<open>json_loads s\<close> is \<open>json.loads(s)\<close>: \<open>None\<close> is \<open>JSONDecodeError\<close>;
  \<^item> \<open>format_2f x\<close> is \<open>f"{x:.2f}"\<close> for a float \<open>x\<close>;
  \<^item> \<open>str_of v\<close> is \<open>str(v)\<close> for a value \<open>v\<close> that is not a string;
  \<^item> \<open>path_seps\<close> are the path separators of \<open>os.path\<close> (the slash, on Windows also the backslash).
\<close>

record ('f, 't) builtins =
  int_of_float :: "'f \<Rightarrow> exn + int"
  float_of_int :: "int \<Rightarrow> 'f option"
  float_of_str :: "string \<Rightarrow> 'f option"
  float_nonzero :: "'f \<Rightarrow> bool"
  fromisoformat :: "string \<Rightarrow> 't option"
  now_utc :: "'t"
  json_loads :: "string \<Rightarrow> 'f json option"
  format_2f :: "'f \<Rightarrow> string"
  str_of :: "'f json \<Rightarrow> string"
  path_seps :: "char list"

subsection \<open>Strings\<close>

text \<open>
  \<open>str.isspace\<close> on an ASCII character: tab, line feed, vertical tab, form feed,
  carriage return, the four separators 28 to 31 and the space.
\<close>

definition is_space :: "char \<Rightarrow> bool" where
  "is_space c = (of_char c \<in> {9, 10, 11, 12, 13, 28, 29, 30, 31, 32 :: nat})"

definition is_digit :: "char \<Rightarrow> bool" where
  "is_digit c = (48 \<le> (of_char c :: nat) \<and> (of_char c :: nat) \<le> 57)"

text \<open>\<open>s.strip()\<close>: leading and trailing whitespace removed.\<close>

definition strip :: "string \<Rightarrow> string" where
  "strip s = rev (dropWhile is_space (rev (dropWhile is_space s)))"

text \<open>
  The whitespace that \<open>int\<close> and \<open>float\<close> drop around a number: tab, line feed,
  vertical tab, form feed, carriage return and the space. The separators 28 to 31 are
  whitespace for \<open>str.isspace\<close>, \<open>str.strip\<close> and \<open>\s\<close>, but not here.
\<close>

definition is_num_space :: "char \<Rightarrow> bool" where
  "is_num_space c = (of_char c \<in> {9, 10, 11, 12, 13, 32 :: nat})"

definition num_strip :: "string \<Rightarrow> string" where
  "num_strip s = rev (dropWhile is_num_space (rev (dropWhile is_num_space s)))"

text \<open>\<open>s.strip('.')\<close>: leading and trailing dots removed.\<close>

definition strip_dots :: "string \<Rightarrow> string" where
  "strip_dots s = rev (dropWhile (\<lambda>c. c = CHR ''.'') (rev (dropWhile (\<lambda>c. c = CHR ''.'') s)))"

text \<open>\<open>s.split(sep)\<close> for a one-character separator: always at least one part.\<close>

fun split_on :: "char \<Rightarrow> string \<Rightarrow> string list" where
  "split_on sep [] = [[]]"
| "split_on sep (c # cs) =
     (if c = sep then [] # split_on sep cs
      else (case split_on sep cs of
              [] \<Rightarrow> [[c]]
            | p # ps \<Rightarrow> (c # p) # ps))"

definition upper_char :: "char \<Rightarrow> char" where
  "upper_char c =
     (if 97 \<le> (of_char c :: nat) \<and> (of_char c :: nat) \<le> 122
      then char_of ((of_char c :: nat) - 32) else c)"

definition lower_char :: "char \<Rightarrow> char" where
  "lower_char c =
     (if 65 \<le> (of_char c :: nat) \<and> (of_char c :: nat) \<le> 90
      then char_of ((of_char c :: nat) + 32) else c)"

definition upper :: "string \<Rightarrow> string" where
  "upper s = map upper_char s"

definition lower :: "string \<Rightarrow> string" where
  "lower s = map lower_char s"

subsection \<open>\<open>int(s)\<close> on a string\<close>

text \<open>
  \<open>int(s)\<close> in base 10: the whitespace \<open>is_num_space\<close> around the text is dropped (a
  separator 28 to 31 is not, and makes the text invalid), one sign is allowed, then
  digits, where single underscores may stand between two digits. Anything else is a
  \<open>ValueError\<close> (\<open>None\<close>).
\<close>

fun digits_value :: "nat \<Rightarrow> string \<Rightarrow> nat option" where
  "digits_value acc [] = Some acc"
| "digits_value acc [c] =
     (if is_digit c then Some (acc * 10 + (of_char c - 48)) else None)"
| "digits_value acc (c # d # cs) =
     (if is_digit c then
        (if d = CHR ''_'' then
           (case cs of
              [] \<Rightarrow> None
            | e # es \<Rightarrow> if is_digit e then digits_value (acc * 10 + (of_char c - 48)) cs else None)
         else digits_value (acc * 10 + (of_char c - 48)) (d # cs))
      else None)"

definition unsigned_of_str :: "string \<Rightarrow> nat option" where
  "unsigned_of_str s = (if s = [] then None else digits_value 0 s)"

definition int_of_str :: "string \<Rightarrow> int option" where
  "int_of_str s =
     (case num_strip s of
        [] \<Rightarrow> None
      | c # cs \<Rightarrow>
          if c = CHR ''-'' then map_option (\<lambda>n. - int n) (unsigned_of_str cs)
          else if c = CHR ''+'' then map_option int (unsigned_of_str cs)
          else map_option int (unsigned_of_str (c # cs)))"

subsection \<open>Operations on JSON values\<close>

text \<open>\<open>bool(v)\<close>, as \<open>not v\<close> and \<open>if v\<close> use it.\<close>

fun truthy :: "('f, 't, 'z) builtins_scheme \<Rightarrow> 'f json \<Rightarrow> bool" where
  "truthy lib JNull = False"
| "truthy lib (JBool b) = b"
| "truthy lib (JInt n) = (n \<noteq> 0)"
| "truthy lib (JFloat x) = float_nonzero lib x"
| "truthy lib (JStr s) = (s \<noteq> [])"
| "truthy lib (JList xs) = (xs \<noteq> [])"
| "truthy lib (JObj kvs) = (kvs \<noteq> [])"

text \<open>\<open>d.get(k, default)\<close>: only a \<open>dict\<close> has the method.\<close>

fun py_get :: "'f json \<Rightarrow> string \<Rightarrow> 'f json \<Rightarrow> exn + 'f json" where
  "py_get (JObj kvs) k dflt = Inr (case map_of kvs k of None \<Rightarrow> dflt | Some v \<Rightarrow> v)"
| "py_get _ k dflt = Inl AttributeError"

text \<open>\<open>int(v)\<close>.\<close>

fun py_int :: "('f, 't, 'z) builtins_scheme \<Rightarrow> 'f json \<Rightarrow> exn + int" where
  "py_int lib (JInt n) = Inr n"
| "py_int lib (JBool b) = Inr (if b then 1 else 0)"
| "py_int lib (JFloat x) = int_of_float lib x"
| "py_int lib (JStr s) = (case int_of_str s of None \<Rightarrow> Inl ValueError | Some n \<Rightarrow> Inr n)"
| "py_int lib _ = Inl TypeError"

text \<open>\<open>float(v)\<close>.\<close>

fun py_float :: "('f, 't, 'z) builtins_scheme \<Rightarrow> 'f json \<Rightarrow> exn + 'f" where
  "py_float lib (JFloat x) = Inr x"
| "py_float lib (JInt n) =
     (case float_of_int lib n of None \<Rightarrow> Inl OverflowError | Some x \<Rightarrow> Inr x)"
| "py_float lib (JBool b) =
     (case float_of_int lib (if b then 1 else 0) of None \<Rightarrow> Inl OverflowError | Some x \<Rightarrow> Inr x)"
| "py_float lib (JStr s) =
     (case float_of_str lib s of None \<Rightarrow> Inl ValueError | Some x \<Rightarrow> Inr x)"
| "py_float lib _ = Inl TypeError"

text \<open>
  \<open>v[i]\<close> for a literal index \<open>i\<close> of 0 or 1: an element of a list, a character of a
  string; a \<open>dict\<close> from JSON has string keys only, so an integer key is missing.
\<close>

fun py_index :: "'f json \<Rightarrow> nat \<Rightarrow> exn + 'f json" where
  "py_index (JList xs) i = (if i < length xs then Inr (xs ! i) else Inl IndexError)"
| "py_index (JStr s) i = (if i < length s then Inr (JStr [s ! i]) else Inl IndexError)"
| "py_index (JObj kvs) i = Inl KeyError"
| "py_index _ i = Inl TypeError"

text \<open>\<open>v['v']\<close>: a key of a \<open>dict\<close>; a list or a string takes integer indices only.\<close>

fun py_item :: "'f json \<Rightarrow> string \<Rightarrow> exn + 'f json" where
  "py_item (JObj kvs) k = (case map_of kvs k of None \<Rightarrow> Inl KeyError | Some v \<Rightarrow> Inr v)"
| "py_item _ k = Inl TypeError"

text \<open>
  \<open>'v' in details\<close>: a key of a \<open>dict\<close>, an element of a list, a substring of a string;
  the other types are not containers.
\<close>

fun py_contains :: "'f json \<Rightarrow> string \<Rightarrow> exn + bool" where
  "py_contains (JObj kvs) k = Inr (k \<in> set (map fst kvs))"
| "py_contains (JList xs) k = Inr (JStr k \<in> set xs)"
| "py_contains (JStr s) k =
     Inr (list_ex (\<lambda>i. take (length k) (drop i s) = k) [0 ..< Suc (length s)])"
| "py_contains _ k = Inl TypeError"

text \<open>\<open>d.items()\<close>.\<close>

fun py_items :: "'f json \<Rightarrow> exn + (string \<times> 'f json) list" where
  "py_items (JObj kvs) = Inr kvs"
| "py_items _ = Inl AttributeError"

text \<open>A method of \<open>str\<close> (\<open>split\<close>, \<open>upper\<close>) called on a value.\<close>

fun py_str_method :: "(string \<Rightarrow> 'a) \<Rightarrow> 'f json \<Rightarrow> exn + 'a" where
  "py_str_method f (JStr s) = Inr (f s)"
| "py_str_method f _ = Inl AttributeError"

section \<open>The data model: \<open>AQIData\<close>\<close>

text \<open>
  An \<open>AQIData\<close> object. \<open>__init__\<close> assigns the attributes one after the other, so an
  attribute is \<open>None\<close> here until its assignment has run; \<open>is_valid\<close> is assigned before
  anything can be caught. \<open>location_name\<close>, \<open>latitude\<close> and \<open>longitude\<close> hold whatever
  JSON value the feed sent.
\<close>

record ('f, 't) AQIData =
  is_valid :: bool
  overall_aqi :: "int option"
  location_name :: "'f json option"
  city :: "string option"
  country :: "string option"
  latitude :: "'f json option"
  longitude :: "'f json option"
  distance_km :: "int option"
  timestamp :: "'t option"
  pollutants :: "(string \<times> 'f) list option"
  dominant_pollutant :: "string option"
  aqi_category_name :: "string option"
  aqi_category_theme :: "string option"

definition new_object :: "('f, 't) AQIData" where
  "new_object =
     \<lparr> is_valid = False, overall_aqi = None, location_name = None, city = None,
       country = None, latitude = None, longitude = None, distance_km = None,
       timestamp = None, pollutants = None, dominant_pollutant = None,
       aqi_category_name = None, aqi_category_theme = None \<rparr>"

text \<open>Sequencing of computations that may raise.\<close>

definition bind_exn :: "exn + 'a \<Rightarrow> ('a \<Rightarrow> exn + 'b) \<Rightarrow> exn + 'b" where
  "bind_exn m f = (case m of Inl e \<Rightarrow> Inl e | Inr x \<Rightarrow> f x)"

text \<open>
  A block of statements on \<open>self\<close>: the first statement that raises ends the block, and
  the assignments made before it stay.
\<close>

fun exec :: "('s \<Rightarrow> exn + 's) list \<Rightarrow> 's \<Rightarrow> 's \<times> exn option" where
  "exec [] s = (s, None)"
| "exec (st # sts) s = (case st s of Inl e \<Rightarrow> (s, Some e) | Inr s' \<Rightarrow> exec sts s')"

text \<open>The category table of line 84, in the order the \<open>dict\<close> literal lists it.\<close>

definition aqi_categories :: "(string \<times> int \<times> int \<times> string) list" where
  "aqi_categories =
     [(''Good'', 0, 50, ''success''),
      (''Moderate'', 51, 100, ''warning''),
      (''Unhealthy for Sensitive'', 101, 150, ''warning''),
      (''Unhealthy'', 151, 200, ''danger''),
      (''Very Unhealthy'', 201, 300, ''danger''),
      (''Hazardous'', 301, 5000, ''danger'')]"

text \<open>The loop of lines 84 and 85: the first range that holds the index wins (\<open>break\<close>).\<close>

fun categorize :: "int \<Rightarrow> (string \<times> int \<times> int \<times> string) list \<Rightarrow> string \<times> string \<Rightarrow> string \<times> string" where
  "categorize aqi [] cur = cur"
| "categorize aqi ((name, low, high, theme) # rest) cur =
     (if low \<le> aqi \<and> aqi \<le> high then (name, theme) else categorize aqi rest cur)"

text \<open>
  The comprehension of line 81 over \<open>iaqi.items()\<close>: an entry whose details do not
  contain \<open>'v'\<close> is skipped, the others are converted with \<open>float\<close>.
\<close>

fun pollutants_of :: "('f, 't, 'z) builtins_scheme \<Rightarrow> (string \<times> 'f json) list \<Rightarrow> exn + (string \<times> 'f) list" where
  "pollutants_of lib [] = Inr []"
| "pollutants_of lib ((param, details) # rest) =
     bind_exn (py_contains details ''v'') (\<lambda>has.
       if has then
         bind_exn (py_item details ''v'') (\<lambda>v.
         bind_exn (py_float lib v) (\<lambda>x.
         bind_exn (pollutants_of lib rest) (\<lambda>ps. Inr ((param, x) # ps))))
       else pollutants_of lib rest)"

text \<open>Line 80: \<open>datetime.fromisoformat(ts_str) if ts_str else datetime.now(timezone.utc)\<close>.\<close>

definition py_timestamp :: "('f, 't, 'z) builtins_scheme \<Rightarrow> 'f json \<Rightarrow> exn + 't" where
  "py_timestamp lib ts_str =
     (if truthy lib ts_str then
        (case ts_str of
           JStr s \<Rightarrow> (case fromisoformat lib s of None \<Rightarrow> Inl ValueError | Some t \<Rightarrow> Inr t)
         | _ \<Rightarrow> Inl TypeError)
      else Inr (now_utc lib))"

text \<open>Lines 71 to 85, one entry per assignment, for the \<open>data\<close> of line 69.\<close>

definition init_body :: "('f, 't, 'z) builtins_scheme \<Rightarrow> 'f json \<Rightarrow> (('f, 't) AQIData \<Rightarrow> exn + ('f, 't) AQIData) list" where
  "init_body lib data =
     [\<lambda>self. Inr (self\<lparr>is_valid := True\<rparr>),
      \<lambda>self. bind_exn (py_get data ''aqi'' (JInt 0)) (\<lambda>v.
              bind_exn (py_int lib v) (\<lambda>n. Inr (self\<lparr>overall_aqi := Some n\<rparr>))),
      \<lambda>self. bind_exn (py_get data ''city'' (JObj [])) (\<lambda>c.
              bind_exn (py_get c ''name'' (JStr ''N/A'')) (\<lambda>v.
                Inr (self\<lparr>location_name := Some v\<rparr>))),
      \<lambda>self. (case location_name self of
                None \<Rightarrow> Inl AttributeError
              | Some v \<Rightarrow>
                  bind_exn (py_str_method (split_on CHR '','') v) (\<lambda>parts.
                    (case parts of
                       [] \<Rightarrow> Inl IndexError
                     | p # _ \<Rightarrow> Inr (self\<lparr>city := Some p\<rparr>)))),
      \<lambda>self. Inr (self\<lparr>country := Some ''N/A''\<rparr>),
      \<lambda>self. bind_exn (py_get data ''city'' (JObj [])) (\<lambda>c.
              bind_exn (py_get c ''geo'' (JList [JNull, JNull])) (\<lambda>geo.
              bind_exn (py_index geo 0) (\<lambda>g0.
              bind_exn (py_index geo 1) (\<lambda>g1.
                Inr (self\<lparr>latitude := Some g0, longitude := Some g1\<rparr>))))),
      \<lambda>self. Inr (self\<lparr>distance_km := Some 0\<rparr>),
      \<lambda>self. bind_exn (py_get data ''time'' (JObj [])) (\<lambda>t.
              bind_exn (py_get t ''iso'' JNull) (\<lambda>ts_str.
              bind_exn (py_timestamp lib ts_str) (\<lambda>ts.
                Inr (self\<lparr>timestamp := Some ts\<rparr>)))),
      \<lambda>self. bind_exn (py_get data ''iaqi'' (JObj [])) (\<lambda>iaqi.
              bind_exn (py_items iaqi) (\<lambda>items.
              bind_exn (pollutants_of lib items) (\<lambda>ps.
                Inr (self\<lparr>pollutants := Some ps\<rparr>)))),
      \<lambda>self. bind_exn (py_get data ''dominentpol'' (JStr ''N/A'')) (\<lambda>v.
              bind_exn (py_str_method upper v) (\<lambda>u.
                Inr (self\<lparr>dominant_pollutant := Some u\<rparr>))),
      \<lambda>self. Inr (self\<lparr>aqi_category_name := Some ''No Data'',
                        aqi_category_theme := Some ''secondary''\<rparr>),
      \<lambda>self. (case overall_aqi self of
                None \<Rightarrow> Inl AttributeError
              | Some aqi \<Rightarrow>
                  (case (aqi_category_name self, aqi_category_theme self) of
                     (Some n, Some t) \<Rightarrow>
                       (case categorize aqi aqi_categories (n, t) of
                          (name, theme) \<Rightarrow>
                            Inr (self\<lparr>aqi_category_name := Some name,
                                      aqi_category_theme := Some theme\<rparr>))
                   | _ \<Rightarrow> Inl AttributeError))]"

text \<open>The exceptions that the \<open>except\<close> clause of line 86 names.\<close>

definition caught :: "exn \<Rightarrow> bool" where
  "caught e = (e = KeyError \<or> e = IndexError \<or> e = TypeError)"

text \<open>
  \<open>AQIData.__init__\<close> (lines 67 to 86). \<open>Inr\<close> is the constructed object, \<open>Inl\<close> an
  exception that leaves the constructor, so that no object exists.
\<close>

definition AQIData_init :: "('f, 't, 'z) builtins_scheme \<Rightarrow> 'f json \<Rightarrow> exn + ('f, 't) AQIData" where
  "AQIData_init lib waqi_json =
     (case py_get waqi_json ''data'' JNull of
        Inl e \<Rightarrow> if caught e then Inr (new_object\<lparr>is_valid := False\<rparr>) else Inl e
      | Inr data \<Rightarrow>
          (case py_get waqi_json ''status'' JNull of
             Inl e \<Rightarrow> if caught e then Inr (new_object\<lparr>is_valid := False\<rparr>) else Inl e
           | Inr status \<Rightarrow>
               if \<not> truthy lib data \<or> status \<noteq> JStr ''ok''
               then Inr (new_object\<lparr>is_valid := False\<rparr>)
               else
                 (case exec (init_body lib data) new_object of
                    (self, None) \<Rightarrow> Inr self
                  | (self, Some e) \<Rightarrow>
                      if caught e then Inr (self\<lparr>is_valid := False\<rparr>) else Inl e)))"

section \<open>Regular expressions, as \<open>re.match\<close> reads them\<close>

datatype rexp =
    Empty
  | Eps
  | Sym "char \<Rightarrow> bool"
  | Alt rexp rexp
  | Seq rexp rexp
  | Star rexp

fun nullable :: "rexp \<Rightarrow> bool" where
  "nullable Empty = False"
| "nullable Eps = True"
| "nullable (Sym P) = False"
| "nullable (Alt r1 r2) = (nullable r1 \<or> nullable r2)"
| "nullable (Seq r1 r2) = (nullable r1 \<and> nullable r2)"
| "nullable (Star r) = True"

text \<open>The derivative of an expression by one character.\<close>

fun deriv :: "char \<Rightarrow> rexp \<Rightarrow> rexp" where
  "deriv c Empty = Empty"
| "deriv c Eps = Empty"
| "deriv c (Sym P) = (if P c then Eps else Empty)"
| "deriv c (Alt r1 r2) = Alt (deriv c r1) (deriv c r2)"
| "deriv c (Seq r1 r2) =
     (if nullable r1 then Alt (Seq (deriv c r1) r2) (deriv c r2) else Seq (deriv c r1) r2)"
| "deriv c (Star r) = Seq (deriv c r) (Star r)"

fun matches :: "rexp \<Rightarrow> string \<Rightarrow> bool" where
  "matches r [] = nullable r"
| "matches r (c # cs) = matches (deriv c r) cs"

definition Chr :: "char \<Rightarrow> rexp" where
  "Chr c = Sym (\<lambda>x. x = c)"

definition Opt :: "rexp \<Rightarrow> rexp" where
  "Opt r = Alt r Eps"

definition Many1 :: "rexp \<Rightarrow> rexp" where
  "Many1 r = Seq r (Star r)"

text \<open>\<open>-?\d+\.?\d*\<close>: one number of the pattern of line 280.\<close>

definition number_re :: rexp where
  "number_re =
     Seq (Opt (Chr CHR ''-'')) (Seq (Many1 (Sym is_digit)) (Seq (Opt (Chr CHR ''.'')) (Star (Sym is_digit))))"

text \<open>\<open>-?\d+\.?\d*,\s*-?\d+\.?\d*\<close>: the pattern of line 280 between \<open>^\<close> and \<open>$\<close>.\<close>

definition coord_re :: rexp where
  "coord_re = Seq number_re (Seq (Chr CHR '','') (Seq (Star (Sym is_space)) number_re))"

text \<open>
  \<open>re.match('^' + r + '$', s)\<close>: the match starts at the first character, and \<open>$\<close>
  holds at the end of the string and before a line feed that ends it.
\<close>

definition re_match_anchored :: "rexp \<Rightarrow> string \<Rightarrow> bool" where
  "re_match_anchored r s = matches (Seq r (Opt (Chr (CHR 0x0A)))) s"

section \<open>The window and its services\<close>

datatype tk_state = DISABLED | NORMAL

text \<open>
  The fields of \<open>AirSenseApp\<close> that the operations read and write: the current record,
  the image path, the location entry, the state of the buttons, the status line with
  its progress bar, the analysis text and the message boxes shown. \<open>ui_state_calls\<close>
  records the argument of every call of \<open>_set_ui_state\<close>, in order. The labels and text
  widgets that only display the record are not part of the state.
\<close>

record ('f, 't) app =
  aqi_data :: "('f, 't) AQIData option"
  img_path :: "string option"
  loc_entry :: string
  fetch_btn :: tk_state
  ip_btn :: tk_state
  up_btn :: tk_state
  prompt_buttons :: "tk_state list"
  an_btn :: tk_state
  status_lbl :: "string \<times> string"
  p_bar :: bool
  analysis_txt :: string
  message_boxes :: "(string \<times> string) list"
  ui_state_calls :: "bool list"

text \<open>
  How the service objects were constructed: the feed token, whether the AI model and
  the database client and handle exist.
\<close>

record services =
  waqi_token :: "string option"
  gemini_model :: bool
  mongo_client :: bool
  mongo_db :: bool

text \<open>
  What the outside world answers during one operation.
  \<^item> \<open>ip_reply\<close>: \<open>None\<close> when the request to the IP service raises \<open>RequestException\<close>,
    else the body as parsed JSON;
  \<^item> \<open>feed_reply\<close>: \<open>Inl msg\<close> when the request to the feed raises \<open>RequestException\<close>
    with text \<open>msg\<close>, else the body as parsed JSON;
  \<^item> \<open>gemini_reply\<close>: \<open>Inl msg\<close> when \<open>generate_content(...).text\<close> raises with text
    \<open>msg\<close>, else the text;
  \<^item> \<open>file_read\<close>: \<open>Inl msg\<close> when opening or reading the image raises with text \<open>msg\<close>,
    else the bytes;
  \<^item> \<open>store_reply\<close>: \<open>Some msg\<close> when a statement of the \<open>try\<close> block of \<open>save_record\<close>
    raises with text \<open>msg\<close>, else \<open>None\<close>.
\<close>

record 'f world =
  ip_reply :: "'f json option"
  feed_reply :: "string + 'f json"
  gemini_reply :: "string + string"
  file_read :: "string + string"
  store_reply :: "string option"

text \<open>The prompts sent to the AI model, by the values interpolated into them.\<close>

datatype 'f prompt =
    AdvisorPrompt "(string \<times> int \<times> string \<times> string \<times> 'f option) option" string
  | AnalystPrompt string int string string

text \<open>A call of a method of a service object.\<close>

datatype ('f, 't) call =
    GetLocationFromIp
  | GetLatestAqiByCoords "'f json" "'f json"
  | GetCoordinatesFromText string
  | GetAiResponse "'f prompt" "string option" "string option"
  | SaveRecord string string "('f, 't) AQIData" string

text \<open>A callback handed to \<open>self.after(0, ...)\<close>, with its arguments.\<close>

datatype callback =
    UpdateStatus string string bool
  | SetUiState bool
  | DisplayErrorState string string
  | UpdateAqiDisplay
  | UpdateAiResponse string
  | UpdateAnalysisText string
  | EntryDelete
  | EntryInsert string

text \<open>\<open>not self.img_path\<close>.\<close>

definition no_path :: "string option \<Rightarrow> bool" where
  "no_path p = (p = None \<or> p = Some [])"

text \<open>\<open>_set_ui_state\<close> (lines 247 to 253).\<close>

definition set_ui_state :: "bool \<Rightarrow> ('f, 't) app \<Rightarrow> ('f, 't) app" where
  "set_ui_state is_busy a =
     (let state = (if is_busy then DISABLED else NORMAL);
          analyze_state = (if is_busy \<or> no_path (img_path a) then DISABLED else NORMAL)
      in a\<lparr> fetch_btn := state, ip_btn := state, up_btn := state,
             prompt_buttons := map (\<lambda>_. state) (prompt_buttons a),
             an_btn := analyze_state,
             ui_state_calls := ui_state_calls a @ [is_busy] \<rparr>)"

text \<open>\<open>_update_status\<close> (lines 257 to 260).\<close>

definition update_status :: "string \<Rightarrow> string \<Rightarrow> bool \<Rightarrow> ('f, 't) app \<Rightarrow> ('f, 't) app" where
  "update_status text style progress a = a\<lparr> status_lbl := (text, style), p_bar := progress \<rparr>"

text \<open>
  \<open>_update_aqi_display\<close> (lines 294 to 303). The attributes read before line 300 must
  exist, else the callback ends there with an \<open>AttributeError\<close>.
\<close>

definition update_aqi_display :: "('f, 't) app \<Rightarrow> ('f, 't) app" where
  "update_aqi_display a =
     (case aqi_data a of
        None \<Rightarrow> a
      | Some d \<Rightarrow>
          if overall_aqi d \<noteq> None \<and> aqi_category_theme d \<noteq> None \<and> aqi_category_name d \<noteq> None
             \<and> timestamp d \<noteq> None \<and> pollutants d \<noteq> None \<and> location_name d \<noteq> None
             \<and> dominant_pollutant d \<noteq> None
          then (if no_path (img_path a) then a else a\<lparr> an_btn := NORMAL \<rparr>)
          else a)"

text \<open>\<open>_display_error_state\<close> (lines 305 to 309).\<close>

definition display_error_state :: "string \<Rightarrow> string \<Rightarrow> ('f, 't) app \<Rightarrow> ('f, 't) app" where
  "display_error_state title details a = a\<lparr> aqi_data := None, an_btn := DISABLED \<rparr>"

text \<open>\<open>_update_ai_response\<close> (lines 344 to 347).\<close>

definition update_ai_response :: "string \<Rightarrow> ('f, 't) app \<Rightarrow> ('f, 't) app" where
  "update_ai_response response_text a = set_ui_state False a"

text \<open>What a callback does when the UI thread runs it.\<close>

fun run_callback :: "callback \<Rightarrow> ('f, 't) app \<Rightarrow> ('f, 't) app" where
  "run_callback (UpdateStatus text style progress) a = update_status text style progress a"
| "run_callback (SetUiState b) a = set_ui_state b a"
| "run_callback (DisplayErrorState title details) a = display_error_state title details a"
| "run_callback UpdateAqiDisplay a = update_aqi_display a"
| "run_callback (UpdateAiResponse response_text) a = update_ai_response response_text a"
| "run_callback (UpdateAnalysisText content) a = a\<lparr> analysis_txt := content \<rparr>"
| "run_callback EntryDelete a = a\<lparr> loc_entry := [] \<rparr>"
| "run_callback (EntryInsert text) a = a\<lparr> loc_entry := text @ loc_entry a \<rparr>"

section \<open>The worker thread and the UI thread\<close>

text \<open>
  One operation in flight: the window, the callbacks scheduled and not yet run, the
  callbacks run so far, the calls made to the services, the lines printed, and the
  schedule. A worker thread and the UI thread run side by side: \<open>schedule\<close> says, for
  each \<open>self.after(0, ...)\<close> of the worker in turn, how many of the waiting callbacks the
  UI thread runs before the worker's next statement. Every list of numbers is a
  schedule; the empty list lets the worker finish before any callback runs.
\<close>

record ('f, 't) sys =
  app :: "('f, 't) app"
  queue :: "callback list"
  ran :: "callback list"
  schedule :: "nat list"
  calls :: "('f, 't) call list"
  printed :: "string list"

text \<open>The UI thread runs up to \<open>n\<close> waiting callbacks, oldest first.\<close>

fun ui_runs :: "nat \<Rightarrow> ('f, 't) sys \<Rightarrow> ('f, 't) sys" where
  "ui_runs 0 s = s"
| "ui_runs (Suc n) s =
     (case queue s of
        [] \<Rightarrow> s
      | cb # rest \<Rightarrow>
          ui_runs n (s\<lparr> app := run_callback cb (app s), queue := rest, ran := ran s @ [cb] \<rparr>))"

text \<open>\<open>self.after(0, cb)\<close> on the worker thread.\<close>

definition after :: "callback \<Rightarrow> ('f, 't) sys \<Rightarrow> ('f, 't) sys" where
  "after cb s =
     (let s1 = s\<lparr> queue := queue s @ [cb] \<rparr>
      in case schedule s1 of
           [] \<Rightarrow> s1
         | n # ns \<Rightarrow> ui_runs n (s1\<lparr> schedule := ns \<rparr>))"

text \<open>Once the worker has ended, the UI thread runs every callback that still waits.\<close>

definition mainloop :: "('f, 't) sys \<Rightarrow> ('f, 't) sys" where
  "mainloop s = ui_runs (length (queue s)) s"

definition log_call :: "('f, 't) call \<Rightarrow> ('f, 't) sys \<Rightarrow> ('f, 't) sys" where
  "log_call c s = s\<lparr> calls := calls s @ [c] \<rparr>"

section \<open>The service objects\<close>

text \<open>\<open>str(v)\<close>, also what an f-string makes of \<open>{v}\<close>: a string is itself.\<close>

fun py_str :: "('f, 't, 'z) builtins_scheme \<Rightarrow> 'f json \<Rightarrow> string" where
  "py_str lib (JStr s) = s"
| "py_str lib v = str_of lib v"

text \<open>
  \<open>f"{v:.2f}"\<close>: a float is formatted, an \<open>int\<close> or \<open>bool\<close> is converted to a float first,
  a string does not know the format code, and the other types take no format.
\<close>

fun py_format_2f :: "('f, 't, 'z) builtins_scheme \<Rightarrow> 'f json \<Rightarrow> exn + string" where
  "py_format_2f lib (JFloat x) = Inr (format_2f lib x)"
| "py_format_2f lib (JInt n) =
     (case float_of_int lib n of None \<Rightarrow> Inl OverflowError | Some x \<Rightarrow> Inr (format_2f lib x))"
| "py_format_2f lib (JBool b) =
     (case float_of_int lib (if b then 1 else 0) of
        None \<Rightarrow> Inl OverflowError
      | Some x \<Rightarrow> Inr (format_2f lib x))"
| "py_format_2f lib (JStr s) = Inl ValueError"
| "py_format_2f lib _ = Inl TypeError"

text \<open>Reading an attribute of an object: an attribute never assigned does not exist.\<close>

definition attr :: "'a option \<Rightarrow> exn + 'a" where
  "attr v = (case v of None \<Rightarrow> Inl AttributeError | Some x \<Rightarrow> Inr x)"

text \<open>The single quote, as the status texts use it.\<close>

definition sq :: string where
  "sq = [CHR 0x27]"

text \<open>\<open>LocationService.get_location_from_ip\<close> (lines 101 to 103).\<close>

definition get_location_from_ip :: "('f, 'w) world_scheme \<Rightarrow> 'f json" where
  "get_location_from_ip world = (case ip_reply world of None \<Rightarrow> JNull | Some j \<Rightarrow> j)"

text \<open>\<open>WAQIService.get_latest_aqi_by_coords\<close> (lines 107 to 110).\<close>

definition get_latest_aqi_by_coords :: "services \<Rightarrow> ('f, 'w) world_scheme \<Rightarrow> 'f json \<Rightarrow> 'f json \<Rightarrow> 'f json" where
  "get_latest_aqi_by_coords svc world lat lon =
     (if waqi_token svc = None \<or> waqi_token svc = Some []
      then JObj [(''status'', JStr ''error''), (''data'', JStr ''WAQI API token not provided'')]
      else (case feed_reply world of
              Inl msg \<Rightarrow> JObj [(''status'', JStr ''error''), (''data'', JStr msg)]
            | Inr j \<Rightarrow> j))"

text \<open>\<open>GeminiService.get_ai_response\<close> (lines 119 to 124).\<close>

definition get_ai_response :: "services \<Rightarrow> ('f, 'w) world_scheme \<Rightarrow> string" where
  "get_ai_response svc world =
     (if \<not> gemini_model svc then ''AI Service is offline (check API key).''
      else (case gemini_reply world of
              Inl msg \<Rightarrow> ''AI Error: '' @ msg
            | Inr text \<Rightarrow> text))"

text \<open>
  \<open>GeminiService.get_coordinates_from_text\<close> (lines 126 to 136): every exception of the
  \<open>try\<close> block gives \<open>None\<close>.
\<close>

definition get_coordinates_from_text :: "('f, 't, 'z) builtins_scheme \<Rightarrow> services \<Rightarrow> ('f, 'w) world_scheme \<Rightarrow> string \<Rightarrow> ('f \<times> 'f \<times> string) option" where
  "get_coordinates_from_text lib svc world query =
     (if \<not> gemini_model svc then None
      else (case gemini_reply world of
              Inl msg \<Rightarrow> None
            | Inr text \<Rightarrow>
                (case json_loads lib text of
                   None \<Rightarrow> None
                 | Some r_json \<Rightarrow>
                     (case bind_exn (py_get r_json ''latitude'' JNull) (\<lambda>lat.
                           bind_exn (py_get r_json ''longitude'' JNull) (\<lambda>lon.
                           bind_exn (py_get r_json ''identified_name'' (JStr query)) (\<lambda>name.
                             if lat \<noteq> JNull \<and> lon \<noteq> JNull then
                               bind_exn (py_float lib lat) (\<lambda>la.
                               bind_exn (py_float lib lon) (\<lambda>lo.
                                 Inr (Some (la, lo, py_str lib name))))
                             else Inr None))) of
                        Inl e \<Rightarrow> None
                      | Inr result \<Rightarrow> result))))"

text \<open>
  \<open>MongoDBService.save_record\<close> (lines 145 to 151): nothing without a database handle;
  an exception of the \<open>try\<close> block is printed.
\<close>

definition save_record :: "services \<Rightarrow> ('f, 'w) world_scheme \<Rightarrow> ('f, 't) sys \<Rightarrow> ('f, 't) sys" where
  "save_record svc world s =
     (if \<not> mongo_db svc then s
      else (case store_reply world of
              None \<Rightarrow> s
            | Some msg \<Rightarrow> s\<lparr> printed := printed s @ [''Failed to save record to MongoDB: '' @ msg] \<rparr>))"

text \<open>
  \<open>os.path.splitext(p)[1]\<close>: the text from the last dot of the last path component on,
  unless that component has no dot or only dots before its last one.
\<close>

definition splitext_ext :: "char list \<Rightarrow> string \<Rightarrow> string" where
  "splitext_ext seps p =
     (let base = rev (takeWhile (\<lambda>c. c \<notin> set seps) (rev p));
          ext = rev (takeWhile (\<lambda>c. c \<noteq> CHR ''.'') (rev base));
          stem = rev (drop (Suc (length ext)) (rev base))
      in if CHR ''.'' \<in> set base \<and> (\<exists>c \<in> set stem. c \<noteq> CHR ''.'') then CHR ''.'' # ext else [])"

text \<open>
  The content type of line 362: the \<open>dict\<close> looked up with the lowered extension, for
  the path separators \<open>seps\<close> of the platform.
\<close>

definition content_type :: "char list \<Rightarrow> string \<Rightarrow> string option" where
  "content_type seps p =
     map_of [(''jpg'', ''image/jpeg''), (''jpeg'', ''image/jpeg''),
             (''png'', ''image/png''), (''webp'', ''image/webp'')]
       (strip_dots (lower (splitext_ext seps p)))"

section \<open>The workers\<close>

text \<open>A worker ends with the state it leaves and the exception that ended it, if any.\<close>

definition read_is_valid :: "('f, 't) sys \<Rightarrow> exn + bool" where
  "read_is_valid s = (case aqi_data (app s) of None \<Rightarrow> Inl AttributeError | Some d \<Rightarrow> Inr (is_valid d))"

text \<open>\<open>_worker_fetch_aqi_data\<close> (lines 286 to 291).\<close>

definition worker_fetch_aqi_data :: "('f, 't, 'z) builtins_scheme \<Rightarrow> services \<Rightarrow> ('f, 'w) world_scheme \<Rightarrow> 'f json \<Rightarrow> 'f json \<Rightarrow> ('f, 't) sys \<Rightarrow> ('f, 't) sys \<times> exn option" where
  "worker_fetch_aqi_data lib svc world lat lon s0 =
     (case bind_exn (py_format_2f lib lat) (\<lambda>a.
           bind_exn (py_format_2f lib lon) (\<lambda>b. Inr (''Fetching AQI near ('' @ a @ '','' @ b @ '')...''))) of
        Inl e \<Rightarrow> (s0, Some e)
      | Inr text \<Rightarrow>
          (let s1 = after (UpdateStatus text ''info'' True) s0;
               raw = get_latest_aqi_by_coords svc world lat lon;
               s2 = log_call (GetLatestAqiByCoords lat lon) s1
           in case (if truthy lib raw
                    then bind_exn (py_get raw ''status'' JNull) (\<lambda>st. Inr (st = JStr ''ok''))
                    else Inr False) of
                Inl e \<Rightarrow> (s2, Some e)
              | Inr True \<Rightarrow>
                  (case AQIData_init lib raw of
                     Inl e \<Rightarrow> (s2, Some e)
                   | Inr d \<Rightarrow>
                       (let s3 = s2\<lparr> app := (app s2)\<lparr> aqi_data := Some d \<rparr> \<rparr>
                        in case read_is_valid s3 of
                             Inl e \<Rightarrow> (s3, Some e)
                           | Inr v1 \<Rightarrow>
                               (let s4 = after (if v1 then UpdateAqiDisplay
                                                else DisplayErrorState ''Parse Error''
                                                       ''Could not process API data.'') s3
                                in case read_is_valid s4 of
                                     Inl e \<Rightarrow> (s4, Some e)
                                   | Inr v2 \<Rightarrow>
                                       (let s5 = after (if v2 then UpdateStatus ''Success!'' ''success'' False
                                                        else UpdateStatus ''Data parse failed.'' ''warning'' False) s4
                                        in (after (SetUiState False) s5, None)))))
              | Inr False \<Rightarrow>
                  (case py_get raw ''data'' (JStr ''Unknown API error.'') of
                     Inl e \<Rightarrow> (s2, Some e)
                   | Inr reason \<Rightarrow>
                       (let s3 = after (DisplayErrorState ''No Data Found''
                                          (''Could not get data.'' @ [CHR 0x0A] @ ''Reason: '' @ py_str lib reason)) s2;
                            s4 = after (UpdateStatus ''AQI data fetch failed.'' ''warning'' False) s3
                        in (after (SetUiState False) s4, None)))))"

text \<open>\<open>_worker_fetch_by_ip\<close> (lines 272 to 275).\<close>

definition worker_fetch_by_ip :: "('f, 't, 'z) builtins_scheme \<Rightarrow> services \<Rightarrow> ('f, 'w) world_scheme \<Rightarrow> ('f, 't) sys \<Rightarrow> ('f, 't) sys \<times> exn option" where
  "worker_fetch_by_ip lib svc world s0 =
     (let loc = get_location_from_ip world;
          s1 = log_call GetLocationFromIp s0
      in if truthy lib loc then
           (let s2 = after EntryDelete s1
            in case bind_exn (py_get loc ''city'' JNull) (\<lambda>c.
                    bind_exn (py_get loc ''country_code'' JNull) (\<lambda>cc.
                      Inr (py_str lib c @ '', '' @ py_str lib cc))) of
                 Inl e \<Rightarrow> (s2, Some e)
               | Inr text \<Rightarrow>
                   (let s3 = after (EntryInsert text) s2
                    in case bind_exn (py_item loc ''latitude'') (\<lambda>la.
                            bind_exn (py_item loc ''longitude'') (\<lambda>lo. Inr (la, lo))) of
                         Inl e \<Rightarrow> (s3, Some e)
                       | Inr (la, lo) \<Rightarrow> worker_fetch_aqi_data lib svc world la lo s3))
         else
           (let s2 = after (UpdateStatus ''Could not get location via IP.'' ''warning'' False) s1
            in (after (SetUiState False) s2, None)))"

text \<open>\<open>_worker_geocode_with_gemini\<close> (lines 282 to 285).\<close>

definition worker_geocode_with_gemini :: "('f, 't, 'z) builtins_scheme \<Rightarrow> services \<Rightarrow> ('f, 'w) world_scheme \<Rightarrow> string \<Rightarrow> ('f, 't) sys \<Rightarrow> ('f, 't) sys \<times> exn option" where
  "worker_geocode_with_gemini lib svc world query s0 =
     (let coords = get_coordinates_from_text lib svc world query;
          s1 = log_call (GetCoordinatesFromText query) s0
      in case coords of
           Some (lat, lon, name) \<Rightarrow>
             (let s2 = after EntryDelete s1;
                  s3 = after (EntryInsert name) s2
              in worker_fetch_aqi_data lib svc world (JFloat lat) (JFloat lon) s3)
         | None \<Rightarrow>
             (let s2 = after (UpdateStatus (''Could not find '' @ sq @ query @ sq @ ''.'') ''danger'' False) s1;
                  s3 = after (DisplayErrorState ''Location Not Found''
                                (sq @ query @ sq @ '' could not be identified.'')) s2
              in (after (SetUiState False) s3, None)))"

text \<open>\<open>_worker_ask_ai\<close> (lines 327 to 342).\<close>

definition worker_ask_ai :: "('f, 't, 'z) builtins_scheme \<Rightarrow> services \<Rightarrow> ('f, 'w) world_scheme \<Rightarrow> string \<Rightarrow> ('f, 't) sys \<Rightarrow> ('f, 't) sys \<times> exn option" where
  "worker_ask_ai lib svc world question s0 =
     (case (case aqi_data (app s0) of
              None \<Rightarrow> Inr None
            | Some d \<Rightarrow>
                if is_valid d then
                  bind_exn (attr (city d)) (\<lambda>c.
                  bind_exn (attr (overall_aqi d)) (\<lambda>n.
                  bind_exn (attr (aqi_category_name d)) (\<lambda>cat.
                  bind_exn (attr (dominant_pollutant d)) (\<lambda>dp.
                  bind_exn (attr (pollutants d)) (\<lambda>ps.
                    Inr (Some (c, n, cat, dp, map_of ps ''pm25'')))))))
                else Inr None) of
        Inl e \<Rightarrow> (s0, Some e)
      | Inr context \<Rightarrow>
          (let response = get_ai_response svc world;
               s1 = log_call (GetAiResponse (AdvisorPrompt context question) None None) s0
           in (after (UpdateAiResponse response) s1, None)))"

text \<open>
  The \<open>try\<close> block of \<open>_worker_analyze_img\<close> up to the call of the AI model (lines 362
  to 365): \<open>Inl\<close> is the text of the exception raised, \<open>Inr\<close> the image bytes, the
  content type and the prompt.
\<close>

definition analyze_prepare :: "('f, 't, 'z) builtins_scheme \<Rightarrow> ('f, 'w) world_scheme \<Rightarrow> ('f, 't) app \<Rightarrow> string + (string \<times> string \<times> 'f prompt)" where
  "analyze_prepare lib world a =
     (case img_path a of
        None \<Rightarrow> Inl ''expected str, bytes or os.PathLike object, not NoneType''
      | Some p \<Rightarrow>
          (case file_read world of
             Inl msg \<Rightarrow> Inl msg
           | Inr img_bytes \<Rightarrow>
               (case content_type (path_seps lib) p of
                  None \<Rightarrow> Inl ''Unsupported image format''
                | Some ctype \<Rightarrow>
                    (case aqi_data a of
                       None \<Rightarrow> Inl (sq @ ''NoneType'' @ sq @ '' object has no attribute '' @ sq @ ''city'' @ sq)
                     | Some d \<Rightarrow>
                         (case (city d, overall_aqi d, aqi_category_name d, dominant_pollutant d) of
                            (Some c, Some n, Some cat, Some dp) \<Rightarrow>
                              Inr (img_bytes, ctype, AnalystPrompt c n cat dp)
                          | (None, _, _, _) \<Rightarrow>
                              Inl (sq @ ''AQIData'' @ sq @ '' object has no attribute '' @ sq @ ''city'' @ sq)
                          | (Some c, None, _, _) \<Rightarrow>
                              Inl (sq @ ''AQIData'' @ sq @ '' object has no attribute '' @ sq @ ''overall_aqi'' @ sq)
                          | (Some c, Some n, None, _) \<Rightarrow>
                              Inl (sq @ ''AQIData'' @ sq @ '' object has no attribute '' @ sq @ ''aqi_category_name'' @ sq)
                          | (Some c, Some n, Some cat, None) \<Rightarrow>
                              Inl (sq @ ''AQIData'' @ sq @ '' object has no attribute '' @ sq @ ''dominant_pollutant'' @ sq))))))"

text \<open>\<open>_worker_analyze_img\<close> (lines 360 to 371).\<close>

definition worker_analyze_img :: "('f, 't, 'z) builtins_scheme \<Rightarrow> services \<Rightarrow> ('f, 'w) world_scheme \<Rightarrow> ('f, 't) sys \<Rightarrow> ('f, 't) sys \<times> exn option" where
  "worker_analyze_img lib svc world s0 =
     (let s_try =
        (case analyze_prepare lib world (app s0) of
           Inl msg \<Rightarrow>
             (let s1 = after (UpdateStatus (''Image analysis failed: '' @ msg) ''danger'' False) s0
              in after (UpdateAnalysisText (''Error: '' @ msg)) s1)
         | Inr (img_bytes, ctype, prompt) \<Rightarrow>
             (let analysis = get_ai_response svc world;
                  s1 = log_call (GetAiResponse prompt (Some img_bytes) (Some ctype)) s0;
                  s2 = after (UpdateAnalysisText analysis) s1;
                  s3 = after (UpdateStatus ''Analysis complete.'' ''success'' False) s2
              in case (if mongo_client svc then aqi_data (app s3) else None) of
                   None \<Rightarrow> s3
                 | Some d \<Rightarrow>
                     if is_valid d
                     then save_record svc world
                            (log_call (SaveRecord (case img_path (app s3) of None \<Rightarrow> [] | Some p \<Rightarrow> p)
                                         ctype d analysis) s3)
                     else s3))
      in (after (SetUiState False) s_try, None))"

section \<open>The operations the user triggers\<close>

datatype 'f worker =
    WorkerFetchByIp
  | WorkerFetchAqiData "'f json" "'f json"
  | WorkerGeocode string
  | WorkerAskAi string
  | WorkerAnalyzeImg

text \<open>
  How a handler on the UI thread ends: without a thread, with a worker thread started,
  or with an exception.
\<close>

datatype 'f spawn = NoThread | Started "'f worker" | Raised exn

text \<open>\<open>fetch_aqi_by_ip_address\<close> (line 271).\<close>

definition fetch_aqi_by_ip_address :: "('f, 't) app \<Rightarrow> ('f, 't) app \<times> 'f spawn" where
  "fetch_aqi_by_ip_address a =
     (update_status ''Detecting location...'' ''info'' True (set_ui_state True a),
      Started WorkerFetchByIp)"

text \<open>\<open>fetch_by_input\<close> (lines 276 to 281).\<close>

definition fetch_by_input :: "('f, 't, 'z) builtins_scheme \<Rightarrow> ('f, 't) app \<Rightarrow> ('f, 't) app \<times> 'f spawn" where
  "fetch_by_input lib a =
     (let query = strip (loc_entry a)
      in if query = [] then (a, NoThread)
         else
           (let a1 = set_ui_state True a
            in if re_match_anchored coord_re query then
                 (case split_on CHR '','' query of
                    [p1, p2] \<Rightarrow>
                      (case float_of_str lib p1 of
                         None \<Rightarrow> (a1, Raised ValueError)
                       | Some lat \<Rightarrow>
                           (case float_of_str lib p2 of
                              None \<Rightarrow> (a1, Raised ValueError)
                            | Some lon \<Rightarrow> (a1, Started (WorkerFetchAqiData (JFloat lat) (JFloat lon)))))
                  | _ \<Rightarrow> (a1, Raised ValueError))
               else
                 (update_status (''Finding '' @ sq @ query @ sq @ ''...'') ''info'' True a1,
                  Started (WorkerGeocode query))))"

text \<open>\<open>ask_ai_assistant\<close> (lines 313 to 325).\<close>

definition ask_ai_assistant :: "string \<Rightarrow> string \<Rightarrow> ('f, 't) app \<Rightarrow> ('f, 't) app \<times> 'f spawn" where
  "ask_ai_assistant question button_text a = (set_ui_state True a, Started (WorkerAskAi question))"

text \<open>\<open>analyze_img\<close> (lines 357 to 359).\<close>

definition analyze_img :: "('f, 't) app \<Rightarrow> ('f, 't) app \<times> 'f spawn" where
  "analyze_img a =
     (if no_path (img_path a) \<or> (case aqi_data a of None \<Rightarrow> True | Some d \<Rightarrow> \<not> is_valid d)
      then (a\<lparr> message_boxes := message_boxes a @
                  [(''Analysis Blocked'', ''Upload image and fetch valid AQI data first.'')] \<rparr>,
            NoThread)
      else (update_status ''Analyzing sky image...'' ''info'' True (set_ui_state True a),
            Started WorkerAnalyzeImg))"

text \<open>The target of a thread.\<close>

fun run_worker :: "('f, 't, 'z) builtins_scheme \<Rightarrow> services \<Rightarrow> ('f, 'w) world_scheme \<Rightarrow> 'f worker \<Rightarrow> ('f, 't) sys \<Rightarrow> ('f, 't) sys \<times> exn option" where
  "run_worker lib svc world WorkerFetchByIp s = worker_fetch_by_ip lib svc world s"
| "run_worker lib svc world (WorkerFetchAqiData lat lon) s = worker_fetch_aqi_data lib svc world lat lon s"
| "run_worker lib svc world (WorkerGeocode query) s = worker_geocode_with_gemini lib svc world query s"
| "run_worker lib svc world (WorkerAskAi question) s = worker_ask_ai lib svc world question s"
| "run_worker lib svc world WorkerAnalyzeImg s = worker_analyze_img lib svc world s"

text \<open>
  A thread from its start to the moment the UI thread has no callback left: the worker
  runs on the window as the handler left it, under the given schedule, and then the UI
  thread runs what still waits. The exception is the one that ended the worker, if any.
\<close>

definition run_thread :: "('f, 't, 'z) builtins_scheme \<Rightarrow> services \<Rightarrow> ('f, 'w) world_scheme \<Rightarrow> nat list \<Rightarrow> 'f worker \<Rightarrow> ('f, 't) app \<Rightarrow> ('f, 't) sys \<times> exn option" where
  "run_thread lib svc world sched w a =
     (case run_worker lib svc world w
             \<lparr> app = a, queue = [], ran = [], schedule = sched, calls = [], printed = [] \<rparr> of
        (s, r) \<Rightarrow> (mainloop s, r))"

section \<open>Notions used to state the properties\<close>

text \<open>The language of a regular expression.\<close>

definition conc :: "string set \<Rightarrow> string set \<Rightarrow> string set" where
  "conc A B = {xs @ ys | xs ys. xs \<in> A \<and> ys \<in> B}"

inductive_set star :: "string set \<Rightarrow> string set" for A :: "string set" where
  star_Nil: "[] \<in> star A"
| star_app: "x \<in> A \<Longrightarrow> xs \<in> star A \<Longrightarrow> x @ xs \<in> star A"

fun lang :: "rexp \<Rightarrow> string set" where
  "lang Empty = {}"
| "lang Eps = {[]}"
| "lang (Sym P) = {[c] | c. P c}"
| "lang (Alt r1 r2) = lang r1 \<union> lang r2"
| "lang (Seq r1 r2) = conc (lang r1) (lang r2)"
| "lang (Star r) = star (lang r)"

text \<open>
  A number of the pattern of line 280 between whitespace that \<open>float\<close> drops
  (\<open>is_num_space\<close>): one of the forms of text that \<open>float\<close> accepts.
\<close>

definition float_text_re :: rexp where
  "float_text_re = Seq (Star (Sym is_num_space)) (Seq number_re (Star (Sym is_num_space)))"

text \<open>The window once every waiting callback has run.\<close>

definition final_app :: "('f, 't) sys \<Rightarrow> ('f, 't) app" where
  "final_app s = foldl (\<lambda>a cb. run_callback cb a) (app s) (queue s)"

text \<open>Every callback scheduled so far, run or waiting, in the order of scheduling.\<close>

definition all_cbs :: "('f, 't) sys \<Rightarrow> callback list" where
  "all_cbs s = ran s @ queue s"

text \<open>The calls of \<open>_set_ui_state\<close> that a callback makes.\<close>

fun ui_calls_of :: "callback \<Rightarrow> bool list" where
  "ui_calls_of (SetUiState b) = [b]"
| "ui_calls_of (UpdateAiResponse t) = [False]"
| "ui_calls_of _ = []"

definition busy_log :: "('f, 't) sys \<Rightarrow> bool list" where
  "busy_log s = ui_state_calls (app s) @ concat (map ui_calls_of (queue s))"

text \<open>A callback that leaves the current record as it is.\<close>

fun keeps_record :: "callback \<Rightarrow> bool" where
  "keeps_record (DisplayErrorState title details) = False"
| "keeps_record _ = True"

text \<open>
  A window for the examples: the record of the Paris response, and an image \<open>sky.gif\<close>
  chosen.
\<close>

definition paris_record :: "(real, string) AQIData" where
  "paris_record =
     \<lparr> is_valid = True, overall_aqi = Some 42,
       location_name = Some (JStr ''Paris, FR''), city = Some ''Paris'',
       country = Some ''N/A'', latitude = Some (JFloat 48.8),
       longitude = Some (JFloat 2.3), distance_km = Some 0,
       timestamp = Some ''2024-01-01T00:00:00Z'',
       pollutants = Some [(''pm25'', 12.5)], dominant_pollutant = Some ''PM25'',
       aqi_category_name = Some ''Good'', aqi_category_theme = Some ''success'' \<rparr>"

definition gif_window :: "(real, string) app" where
  "gif_window =
     \<lparr> aqi_data = Some paris_record, img_path = Some ''sky.gif'', loc_entry = ''Paris'',
       fetch_btn = NORMAL, ip_btn = NORMAL, up_btn = NORMAL,
       prompt_buttons = [NORMAL, NORMAL, NORMAL], an_btn = NORMAL,
       status_lbl = (''Success!'', ''success''), p_bar = False,
       analysis_txt = ''Image loaded. Ready.'', message_boxes = [], ui_state_calls = [] \<rparr>"

section \<open>Properties of the data model\<close>

lemma exec_Cons_None_iff:
  "exec (st # sts) s = (r, None) \<longleftrightarrow> (\<exists>s'. st s = Inr s' \<and> exec sts s' = (r, None))"
  by (auto split: sum.splits)

lemma exec_Nil_iff: "exec [] s = (r, None) \<longleftrightarrow> r = s"
  by auto

lemma bind_exn_Inr_iff:
  "bind_exn m f = Inr y \<longleftrightarrow> (\<exists>x. m = Inr x \<and> f x = Inr y)"
  by (auto simp: bind_exn_def split: sum.splits)

lemma categorize_ranges:
  "categorize n aqi_categories (''No Data'', ''secondary'') =
     (if 0 \<le> n \<and> n \<le> 50 then (''Good'', ''success'')
      else if 51 \<le> n \<and> n \<le> 100 then (''Moderate'', ''warning'')
      else if 101 \<le> n \<and> n \<le> 150 then (''Unhealthy for Sensitive'', ''warning'')
      else if 151 \<le> n \<and> n \<le> 200 then (''Unhealthy'', ''danger'')
      else if 201 \<le> n \<and> n \<le> 300 then (''Very Unhealthy'', ''danger'')
      else if 301 \<le> n \<and> n \<le> 5000 then (''Hazardous'', ''danger'')
      else (''No Data'', ''secondary''))"
  by (simp add: aqi_categories_def)

text \<open>A valid object is one whose block of assignments ran to its end.\<close>

lemma init_valid_exec:
  "AQIData_init lib j = Inr r \<Longrightarrow> is_valid r \<Longrightarrow>
   \<exists>data. py_get j ''data'' JNull = Inr data \<and> exec (init_body lib data) new_object = (r, None)"
  by (auto simp: AQIData_init_def new_object_def
      split: sum.splits if_splits option.splits prod.splits)

lemma body_category:
  assumes "exec (init_body lib data) new_object = (r, None)"
  shows "\<exists>n. overall_aqi r = Some n
     \<and> aqi_category_name r = Some (fst (categorize n aqi_categories (''No Data'', ''secondary'')))
     \<and> aqi_category_theme r = Some (snd (categorize n aqi_categories (''No Data'', ''secondary'')))"
  using assms unfolding init_body_def
  by (auto simp del: exec.simps categorize.simps
      simp add: exec_Cons_None_iff exec_Nil_iff bind_exn_Inr_iff case_prod_beta
      split: option.splits list.splits)

text \<open>
  A feed response that carries nothing but an index: the constructor accepts it, so
  every integer is the index of some valid object.
\<close>

lemma init_aqi_only:
  "\<exists>r. AQIData_init lib (JObj [(''status'', JStr ''ok''), (''data'', JObj [(''aqi'', JInt n)])])
         = Inr r \<and> is_valid r \<and> overall_aqi r = Some n"
  by (simp add: AQIData_init_def init_body_def bind_exn_def new_object_def py_timestamp_def
      case_prod_beta del: categorize.simps)

text \<open>
  C1. Whenever the constructor returns a valid object, the object has an index \<open>n\<close>, and
  its category name and theme are the ones of the table of inclusive ranges: 0 to 50
  Good/success, 51 to 100 Moderate/warning, 101 to 150 Unhealthy for Sensitive/warning,
  151 to 200 Unhealthy/danger, 201 to 300 Very Unhealthy/danger, 301 to 5000
  Hazardous/danger, and No Data/secondary for any other integer.
\<close>

theorem aqi_category_by_ranges:
  assumes "AQIData_init lib waqi_json = Inr r" and "is_valid r"
  shows "\<exists>n. overall_aqi r = Some n \<and>
           (aqi_category_name r, aqi_category_theme r) =
             (if 0 \<le> n \<and> n \<le> 50 then (Some ''Good'', Some ''success'')
              else if 51 \<le> n \<and> n \<le> 100 then (Some ''Moderate'', Some ''warning'')
              else if 101 \<le> n \<and> n \<le> 150 then (Some ''Unhealthy for Sensitive'', Some ''warning'')
              else if 151 \<le> n \<and> n \<le> 200 then (Some ''Unhealthy'', Some ''danger'')
              else if 201 \<le> n \<and> n \<le> 300 then (Some ''Very Unhealthy'', Some ''danger'')
              else if 301 \<le> n \<and> n \<le> 5000 then (Some ''Hazardous'', Some ''danger'')
              else (Some ''No Data'', Some ''secondary''))"
proof -
  from init_valid_exec [OF assms] obtain data
    where "exec (init_body lib data) new_object = (r, None)" by blast
  from body_category [OF this] obtain n where n: "overall_aqi r = Some n"
    "aqi_category_name r = Some (fst (categorize n aqi_categories (''No Data'', ''secondary'')))"
    "aqi_category_theme r = Some (snd (categorize n aqi_categories (''No Data'', ''secondary'')))"
    by blast
  show ?thesis
    by (rule exI [of _ n]) (simp add: n categorize_ranges del: categorize.simps)
qed

text \<open>
  The boundary values 50, 51, 300 and 301, and the values -1 and 5001 outside every
  range, each as the index of a feed response, under any behaviour of the built-ins.
\<close>

theorem aqi_category_by_ranges_witness:
  "\<forall>lib :: (real, string) builtins.
     (\<exists>r. AQIData_init lib (JObj [(''status'', JStr ''ok''), (''data'', JObj [(''aqi'', JInt 50)])]) = Inr r
         \<and> is_valid r \<and> aqi_category_name r = Some ''Good'' \<and> aqi_category_theme r = Some ''success'')
   \<and> (\<exists>r. AQIData_init lib (JObj [(''status'', JStr ''ok''), (''data'', JObj [(''aqi'', JInt 51)])]) = Inr r
         \<and> is_valid r \<and> aqi_category_name r = Some ''Moderate'' \<and> aqi_category_theme r = Some ''warning'')
   \<and> (\<exists>r. AQIData_init lib (JObj [(''status'', JStr ''ok''), (''data'', JObj [(''aqi'', JInt 300)])]) = Inr r
         \<and> is_valid r \<and> aqi_category_name r = Some ''Very Unhealthy'' \<and> aqi_category_theme r = Some ''danger'')
   \<and> (\<exists>r. AQIData_init lib (JObj [(''status'', JStr ''ok''), (''data'', JObj [(''aqi'', JInt 301)])]) = Inr r
         \<and> is_valid r \<and> aqi_category_name r = Some ''Hazardous'' \<and> aqi_category_theme r = Some ''danger'')
   \<and> (\<exists>r. AQIData_init lib (JObj [(''status'', JStr ''ok''), (''data'', JObj [(''aqi'', JInt (- 1))])]) = Inr r
         \<and> is_valid r \<and> aqi_category_name r = Some ''No Data'' \<and> aqi_category_theme r = Some ''secondary'')
   \<and> (\<exists>r. AQIData_init lib (JObj [(''status'', JStr ''ok''), (''data'', JObj [(''aqi'', JInt 5001)])]) = Inr r
         \<and> is_valid r \<and> aqi_category_name r = Some ''No Data'' \<and> aqi_category_theme r = Some ''secondary'')"
proof -
  have at: "\<exists>r. AQIData_init lib (JObj [(''status'', JStr ''ok''), (''data'', JObj [(''aqi'', JInt n)])]) = Inr r
      \<and> is_valid r
      \<and> (aqi_category_name r, aqi_category_theme r) =
             (if 0 \<le> n \<and> n \<le> 50 then (Some ''Good'', Some ''success'')
              else if 51 \<le> n \<and> n \<le> 100 then (Some ''Moderate'', Some ''warning'')
              else if 101 \<le> n \<and> n \<le> 150 then (Some ''Unhealthy for Sensitive'', Some ''warning'')
              else if 151 \<le> n \<and> n \<le> 200 then (Some ''Unhealthy'', Some ''danger'')
              else if 201 \<le> n \<and> n \<le> 300 then (Some ''Very Unhealthy'', Some ''danger'')
              else if 301 \<le> n \<and> n \<le> 5000 then (Some ''Hazardous'', Some ''danger'')
              else (Some ''No Data'', Some ''secondary''))"
    for lib :: "(real, string) builtins" and n :: int
  proof -
    from init_aqi_only [of lib n] obtain r where r:
      "AQIData_init lib (JObj [(''status'', JStr ''ok''), (''data'', JObj [(''aqi'', JInt n)])]) = Inr r"
      "is_valid r" "overall_aqi r = Some n" by blast
    from aqi_category_by_ranges [OF r(1) r(2)] r(3) r(1) r(2) show ?thesis
      by (intro exI [of _ r]) auto
  qed
  show ?thesis
    using at [of _ 50] at [of _ 51] at [of _ 300] at [of _ 301] at [of _ "- 1"] at [of _ 5001]
    by simp
qed

text \<open>
  What the constructor does with a response that is not a usable \<open>ok\<close> response: an
  invalid object when the status is not \<open>ok\<close> or the data is missing or empty, and when
  an assignment raises one of the three exceptions that line 86 names.
\<close>

lemma init_status_not_ok:
  assumes "py_get waqi_json ''data'' JNull = Inr data"
    and "\<not> truthy lib data \<or> py_get waqi_json ''status'' JNull \<noteq> Inr (JStr ''ok'')"
  shows "AQIData_init lib waqi_json = Inr (new_object\<lparr>is_valid := False\<rparr>)"
  using assms by (cases waqi_json) (auto simp: AQIData_init_def split: sum.splits)

lemma init_caught_invalid:
  assumes "py_get waqi_json ''data'' JNull = Inr data"
    and "exec (init_body lib data) new_object = (self, Some e)" and "caught e"
  shows "\<exists>r. AQIData_init lib waqi_json = Inr r \<and> \<not> is_valid r"
  using assms by (cases waqi_json) (auto simp: AQIData_init_def new_object_def split: sum.splits)

text \<open>
  C4. The feed sends the index as the text \<open>-\<close> when a station has no reading. \<open>int\<close>
  raises \<open>ValueError\<close>, which the \<open>except\<close> clause of line 86 does not name: the
  constructor does not complete, and no object with \<open>is_valid\<close> false exists.
\<close>

theorem init_non_integer_aqi_raises:
  "AQIData_init lib (JObj [(''status'', JStr ''ok''), (''data'', JObj [(''aqi'', JStr ''-'')])])
     = Inl ValueError"
  by (simp add: AQIData_init_def init_body_def bind_exn_def new_object_def caught_def
      int_of_str_def num_strip_def is_num_space_def unsigned_of_str_def)

text \<open>
  Whatever the library, the exception of this response is a \<open>ValueError\<close>, and it is
  not one that line 86 catches.
\<close>

theorem init_non_integer_aqi_raises_witness:
  "\<forall>lib :: (real, string) builtins.
     AQIData_init lib (JObj [(''status'', JStr ''ok''), (''data'', JObj [(''aqi'', JStr ''-'')])])
       = Inl ValueError
   \<and> \<not> caught ValueError"
proof (intro allI conjI)
  fix lib :: "(real, string) builtins"
  show "AQIData_init lib (JObj [(''status'', JStr ''ok''), (''data'', JObj [(''aqi'', JStr ''-'')])])
       = Inl ValueError"
    by (rule init_non_integer_aqi_raises)
  show "\<not> caught ValueError" by (simp add: caught_def)
qed

text \<open>
  The same escape for a timestamp that \<open>fromisoformat\<close> rejects and for a pollutant
  value that \<open>float\<close> rejects.
\<close>

lemma init_non_iso_timestamp_raises:
  assumes "s \<noteq> []" and "fromisoformat lib s = None"
  shows "AQIData_init lib (JObj [(''status'', JStr ''ok''),
            (''data'', JObj [(''aqi'', JInt 42), (''time'', JObj [(''iso'', JStr s)])])])
     = Inl ValueError"
  using assms
  by (simp add: AQIData_init_def init_body_def bind_exn_def new_object_def caught_def
      py_timestamp_def)

lemma init_non_numeric_pollutant_raises:
  assumes "float_of_str lib s = None"
  shows "AQIData_init lib (JObj [(''status'', JStr ''ok''),
            (''data'', JObj [(''aqi'', JInt 42), (''iaqi'', JObj [(''pm25'', JObj [(''v'', JStr s)])])])])
     = Inl ValueError"
  using assms
  by (simp add: AQIData_init_def init_body_def bind_exn_def new_object_def caught_def
      py_timestamp_def)

lemma upper_pm25: "upper ''pm25'' = ''PM25''"
  by code_simp

text \<open>
  C9. For the feed response of the scenario, on a runtime whose
  \<open>datetime.fromisoformat\<close> accepts the timestamp of the response, the constructor
  returns a valid object with index 42, category Good, city Paris (the location name up
  to its first comma) and the single pollutant reading of 12.5 for \<open>pm25\<close>.
\<close>

theorem paris_scenario:
  fixes lib :: "(real, 't) builtins"
  assumes "fromisoformat lib ''2024-01-01T00:00:00Z'' = Some t"
  shows "AQIData_init lib
     (JObj [(''status'', JStr ''ok''),
            (''data'', JObj [(''aqi'', JInt 42),
                             (''city'', JObj [(''name'', JStr ''Paris, FR''),
                                              (''geo'', JList [JFloat 48.8, JFloat 2.3])]),
                             (''time'', JObj [(''iso'', JStr ''2024-01-01T00:00:00Z'')]),
                             (''iaqi'', JObj [(''pm25'', JObj [(''v'', JFloat 12.5)])]),
                             (''dominentpol'', JStr ''pm25'')])])
     = Inr \<lparr> is_valid = True, overall_aqi = Some 42,
             location_name = Some (JStr ''Paris, FR''), city = Some ''Paris'',
             country = Some ''N/A'', latitude = Some (JFloat 48.8),
             longitude = Some (JFloat 2.3), distance_km = Some 0, timestamp = Some t,
             pollutants = Some [(''pm25'', 12.5)], dominant_pollutant = Some ''PM25'',
             aqi_category_name = Some ''Good'', aqi_category_theme = Some ''success'' \<rparr>"
  using assms
  by (simp add: AQIData_init_def init_body_def bind_exn_def new_object_def caught_def
      py_timestamp_def aqi_categories_def upper_pm25)

theorem paris_scenario_witness:
  "\<forall>lib :: (real, string) builtins.
   AQIData_init (lib\<lparr>fromisoformat := Some\<rparr>)
     (JObj [(''status'', JStr ''ok''),
            (''data'', JObj [(''aqi'', JInt 42),
                             (''city'', JObj [(''name'', JStr ''Paris, FR''),
                                              (''geo'', JList [JFloat 48.8, JFloat 2.3])]),
                             (''time'', JObj [(''iso'', JStr ''2024-01-01T00:00:00Z'')]),
                             (''iaqi'', JObj [(''pm25'', JObj [(''v'', JFloat 12.5)])]),
                             (''dominentpol'', JStr ''pm25'')])])
     = Inr \<lparr> is_valid = True, overall_aqi = Some 42,
             location_name = Some (JStr ''Paris, FR''), city = Some ''Paris'',
             country = Some ''N/A'', latitude = Some (JFloat 48.8),
             longitude = Some (JFloat 2.3), distance_km = Some 0,
             timestamp = Some ''2024-01-01T00:00:00Z'',
             pollutants = Some [(''pm25'', 12.5)], dominant_pollutant = Some ''PM25'',
             aqi_category_name = Some ''Good'', aqi_category_theme = Some ''success'' \<rparr>"
proof
  fix lib :: "(real, string) builtins"
  have "fromisoformat (lib\<lparr>fromisoformat := Some\<rparr>) ''2024-01-01T00:00:00Z''
          = Some ''2024-01-01T00:00:00Z''" by simp
  from paris_scenario [OF this] show "AQIData_init (lib\<lparr>fromisoformat := Some\<rparr>)
     (JObj [(''status'', JStr ''ok''),
            (''data'', JObj [(''aqi'', JInt 42),
                             (''city'', JObj [(''name'', JStr ''Paris, FR''),
                                              (''geo'', JList [JFloat 48.8, JFloat 2.3])]),
                             (''time'', JObj [(''iso'', JStr ''2024-01-01T00:00:00Z'')]),
                             (''iaqi'', JObj [(''pm25'', JObj [(''v'', JFloat 12.5)])]),
                             (''dominentpol'', JStr ''pm25'')])])
     = Inr \<lparr> is_valid = True, overall_aqi = Some 42,
             location_name = Some (JStr ''Paris, FR''), city = Some ''Paris'',
             country = Some ''N/A'', latitude = Some (JFloat 48.8),
             longitude = Some (JFloat 2.3), distance_km = Some 0,
             timestamp = Some ''2024-01-01T00:00:00Z'',
             pollutants = Some [(''pm25'', 12.5)], dominant_pollutant = Some ''PM25'',
             aqi_category_name = Some ''Good'', aqi_category_theme = Some ''success'' \<rparr>" .
qed

section \<open>Properties of the pattern and the location entry\<close>

lemma nullable_lang: "nullable r \<longleftrightarrow> [] \<in> lang r"
  by (induction r) (auto simp: conc_def intro: star.intros)

lemma star_Cons_split:
  assumes "w \<in> star A" and "w = c # v"
  shows "\<exists>ys zs. v = ys @ zs \<and> c # ys \<in> A \<and> zs \<in> star A"
  using assms
proof (induction arbitrary: v rule: star.induct)
  case star_Nil
  then show ?case by simp
next
  case (star_app x xs)
  show ?case
  proof (cases x)
    case Nil
    with star_app show ?thesis by simp
  next
    case (Cons a ys)
    with star_app.prems have "a = c" and "v = ys @ xs" by simp_all
    with Cons star_app.hyps show ?thesis by blast
  qed
qed

lemma deriv_lang: "lang (deriv c r) = {w. c # w \<in> lang r}"
proof (induction r)
  case (Seq r1 r2)
  have "{w. c # w \<in> conc (lang r1) (lang r2)} =
        conc {w. c # w \<in> lang r1} (lang r2) \<union> (if [] \<in> lang r1 then {w. c # w \<in> lang r2} else {})"
    by (auto simp: conc_def Cons_eq_append_conv)
  with Seq show ?case by (simp add: nullable_lang)
next
  case (Star r)
  have "{w. c # w \<in> star (lang r)} = conc {w. c # w \<in> lang r} (star (lang r))"
  proof (intro equalityI subsetI)
    fix w assume "w \<in> {w. c # w \<in> star (lang r)}"
    then show "w \<in> conc {w. c # w \<in> lang r} (star (lang r))"
      using star_Cons_split [of "c # w" "lang r" c w] by (auto simp: conc_def)
  next
    fix w assume "w \<in> conc {w. c # w \<in> lang r} (star (lang r))"
    then obtain ys zs where "w = ys @ zs" "c # ys \<in> lang r" "zs \<in> star (lang r)"
      by (auto simp: conc_def)
    then show "w \<in> {w. c # w \<in> star (lang r)}"
      using star_app [of "c # ys" "lang r" zs] by simp
  qed
  with Star show ?case by simp
qed auto

lemma matches_lang: "matches r s \<longleftrightarrow> s \<in> lang r"
  by (induction s arbitrary: r) (simp_all add: nullable_lang deriv_lang)

lemma star_sym_chars: "w \<in> star {[c] | c. P c} \<Longrightarrow> \<forall>c \<in> set w. P c"
  by (induction rule: star.induct) auto

lemma star_sym_intro: "\<forall>c \<in> set w. P c \<Longrightarrow> w \<in> star {[c] | c. P c}"
proof (induction w)
  case Nil
  show ?case by (rule star_Nil)
next
  case (Cons a w)
  then have "[a] \<in> {[c] | c. P c}" and "w \<in> star {[c] | c. P c}" by auto
  from star_app [OF this] show ?case by simp
qed

lemma split_on_single:
  "sep \<notin> set p \<Longrightarrow> split_on sep p = [p]"
  by (induction p) auto

lemma split_on_two:
  "sep \<notin> set p1 \<Longrightarrow> sep \<notin> set p2 \<Longrightarrow> split_on sep (p1 @ sep # p2) = [p1, p2]"
  by (induction p1) (auto simp: split_on_single)

lemma number_chars:
  assumes "w \<in> lang number_re"
  shows "\<forall>c \<in> set w. c = CHR ''-'' \<or> c = CHR ''.'' \<or> is_digit c"
  using assms
  by (auto simp: number_re_def conc_def Opt_def Chr_def Many1_def dest!: star_sym_chars)

lemma comma_not_digit: "\<not> is_digit CHR '',''" "\<not> is_space CHR '',''"
  by (simp_all add: is_digit_def is_space_def)

lemma number_no_comma: "w \<in> lang number_re \<Longrightarrow> CHR '','' \<notin> set w"
  using number_chars comma_not_digit by fastforce

lemma number_is_float_text: "w \<in> lang number_re \<Longrightarrow> w \<in> lang float_text_re"
proof -
  assume w: "w \<in> lang number_re"
  have "[] @ (w @ []) \<in> conc (star {[c] | c. is_num_space c})
                             (conc (lang number_re) (star {[c] | c. is_num_space c}))"
    unfolding conc_def using w star_Nil by blast
  then show ?thesis by (simp add: float_text_re_def)
qed

lemma spaced_number_is_float_text:
  assumes "\<forall>c \<in> set ws. is_num_space c" and "w \<in> lang number_re"
    and "nl \<in> lang (Opt (Chr (CHR 0x0A)))"
  shows "ws @ w @ nl \<in> lang float_text_re"
proof -
  have "ws \<in> star {[c] | c. is_num_space c}"
    using assms(1) by (rule star_sym_intro)
  moreover have "nl \<in> star {[c] | c. is_num_space c}"
  proof (rule star_sym_intro)
    from assms(3) show "\<forall>c \<in> set nl. is_num_space c"
      by (auto simp: Opt_def Chr_def is_num_space_def)
  qed
  ultimately have "ws @ (w @ nl) \<in> conc (star {[c] | c. is_num_space c})
                                     (conc (lang number_re) (star {[c] | c. is_num_space c}))"
    using assms(2) unfolding conc_def by auto
  then show ?thesis by (simp add: float_text_re_def)
qed

text \<open>
  A query that matches the pattern of line 280 has one comma, and the text on each side
  of it is a number between whitespace. When the whitespace of the query is of the kind
  that \<open>float\<close> drops, both sides are texts that \<open>float\<close> accepts.
\<close>

lemma coord_split:
  assumes "re_match_anchored coord_re q"
    and "\<forall>c \<in> set q. is_space c \<longrightarrow> is_num_space c"
  shows "\<exists>p1 p2. split_on CHR '','' q = [p1, p2] \<and> matches float_text_re p1 \<and> matches float_text_re p2"
proof -
  from assms(1) have "q \<in> conc (lang coord_re) (lang (Opt (Chr (CHR 0x0A))))"
    by (simp add: re_match_anchored_def matches_lang)
  then obtain n1 ws n2 nl where q: "q = n1 @ CHR '','' # (ws @ n2 @ nl)"
    and n1: "n1 \<in> lang number_re" and ws: "ws \<in> lang (Star (Sym is_space))"
    and n2: "n2 \<in> lang number_re" and nl: "nl \<in> lang (Opt (Chr (CHR 0x0A)))"
    by (auto simp: coord_re_def conc_def Chr_def)
  have wsp: "\<forall>c \<in> set ws. is_space c" using ws by (auto dest!: star_sym_chars)
  with assms(2) have wsn: "\<forall>c \<in> set ws. is_num_space c" unfolding q by auto
  have c1: "CHR '','' \<notin> set n1" using n1 by (rule number_no_comma)
  have "CHR '','' \<notin> set ws" using wsp comma_not_digit by auto
  moreover have "CHR '','' \<notin> set n2" using n2 by (rule number_no_comma)
  moreover have "CHR '','' \<notin> set nl" using nl by (auto simp: Opt_def Chr_def)
  ultimately have c2: "CHR '','' \<notin> set (ws @ n2 @ nl)" by simp
  have "split_on CHR '','' q = [n1, ws @ n2 @ nl]"
    unfolding q using c1 c2 by (rule split_on_two)
  moreover have "matches float_text_re n1"
    using number_is_float_text [OF n1] by (simp add: matches_lang)
  moreover have "matches float_text_re (ws @ n2 @ nl)"
    using spaced_number_is_float_text [OF wsn n2 nl] by (simp add: matches_lang)
  ultimately show ?thesis by blast
qed

lemma strip_blank:
  assumes "\<forall>c \<in> set s. is_space c"
  shows "strip s = []"
proof -
  from assms have "dropWhile is_space s = []" by (induction s) auto
  then have "strip s = rev (dropWhile is_space (rev []))"
    unfolding strip_def by (simp only:)
  then show ?thesis by simp
qed

text \<open>
  C10. When the location entry holds nothing but whitespace, \<open>fetch_by_input\<close> returns
  at once: no thread is started, and the window is the one it was, so the buttons, the
  record, the image path and the status line are unchanged and \<open>_set_ui_state\<close> was not
  called.
\<close>

theorem blank_query_is_noop:
  assumes "\<forall>c \<in> set (loc_entry a). is_space c"
  shows "fetch_by_input lib a = (a, NoThread)"
  using assms by (simp add: fetch_by_input_def strip_blank)

text \<open>
  An entry of blanks and a tabulator, and an empty entry: nothing changes and no thread starts.
\<close>

theorem blank_query_is_noop_witness:
  "\<forall>lib :: (real, string) builtins. \<forall>a.
     fetch_by_input lib (a\<lparr>loc_entry := [CHR '' '', CHR 0x09, CHR '' '']\<rparr>)
       = (a\<lparr>loc_entry := [CHR '' '', CHR 0x09, CHR '' '']\<rparr>, NoThread)
   \<and> fetch_by_input lib (a\<lparr>loc_entry := []\<rparr>) = (a\<lparr>loc_entry := []\<rparr>, NoThread)"
proof (intro allI conjI)
  fix lib :: "(real, string) builtins" and a :: "(real, string) app"
  have "\<forall>c \<in> set (loc_entry (a\<lparr>loc_entry := [CHR '' '', CHR 0x09, CHR '' '']\<rparr>)). is_space c"
    by (simp add: is_space_def)
  from blank_query_is_noop [OF this]
  show "fetch_by_input lib (a\<lparr>loc_entry := [CHR '' '', CHR 0x09, CHR '' '']\<rparr>)
       = (a\<lparr>loc_entry := [CHR '' '', CHR 0x09, CHR '' '']\<rparr>, NoThread)" .
  have "\<forall>c \<in> set (loc_entry (a\<lparr>loc_entry := []\<rparr>)). is_space c" by simp
  from blank_query_is_noop [OF this]
  show "fetch_by_input lib (a\<lparr>loc_entry := []\<rparr>) = (a\<lparr>loc_entry := []\<rparr>, NoThread)" .
qed

section \<open>Properties of the two threads\<close>

lemma ui_runs_fields [simp]:
  "calls (ui_runs n s) = calls s" "printed (ui_runs n s) = printed s"
  "schedule (ui_runs n s) = schedule s"
  by (induction n arbitrary: s; simp split: list.splits)+

lemma ui_runs_final [simp]: "final_app (ui_runs n s) = final_app s"
  by (induction n arbitrary: s) (simp_all add: final_app_def split: list.splits)

lemma ui_runs_all_cbs [simp]: "all_cbs (ui_runs n s) = all_cbs s"
  by (induction n arbitrary: s) (simp_all add: all_cbs_def split: list.splits)

lemma ui_runs_all:
  "length (queue s) \<le> n \<Longrightarrow> queue (ui_runs n s) = [] \<and> app (ui_runs n s) = final_app s
     \<and> ran (ui_runs n s) = all_cbs s"
  by (induction n arbitrary: s) (auto simp: final_app_def all_cbs_def split: list.splits)

lemma mainloop_simps [simp]:
  "queue (mainloop s) = []" "app (mainloop s) = final_app s" "ran (mainloop s) = all_cbs s"
  "calls (mainloop s) = calls s" "printed (mainloop s) = printed s"
  using ui_runs_all [of s "length (queue s)"] by (simp_all add: mainloop_def)

lemma after_fields [simp]:
  "calls (after cb s) = calls s" "printed (after cb s) = printed s"
  by (simp_all add: after_def Let_def split: list.splits)

lemma after_final [simp]: "final_app (after cb s) = run_callback cb (final_app s)"
  by (simp add: after_def Let_def split: list.splits) (simp add: final_app_def)

lemma after_all_cbs [simp]: "all_cbs (after cb s) = all_cbs s @ [cb]"
  by (simp add: after_def Let_def split: list.splits) (simp add: all_cbs_def)

lemma log_call_fields [simp]:
  "calls (log_call c s) = calls s @ [c]" "printed (log_call c s) = printed s"
  "final_app (log_call c s) = final_app s" "all_cbs (log_call c s) = all_cbs s"
  "app (log_call c s) = app s" "queue (log_call c s) = queue s"
  by (simp_all add: log_call_def final_app_def all_cbs_def)


lemma final_app_init [simp]:
  "final_app \<lparr> app = a, queue = [], ran = [], schedule = sched, calls = cs, printed = ps \<rparr> = a"
  "all_cbs \<lparr> app = a, queue = [], ran = [], schedule = sched, calls = cs, printed = ps \<rparr> = []"
  by (simp_all add: final_app_def all_cbs_def)

lemma save_record_fields [simp]:
  "final_app (save_record svc world s) = final_app s"
  "all_cbs (save_record svc world s) = all_cbs s"
  "calls (save_record svc world s) = calls s"
  "app (save_record svc world s) = app s"
  "queue (save_record svc world s) = queue s"
  by (simp_all add: save_record_def final_app_def all_cbs_def split: option.splits)

lemma run_callback_fields:
  "img_path (run_callback cb a) = img_path a"
  "keeps_record cb \<Longrightarrow> aqi_data (run_callback cb a) = aqi_data a"
  "ui_state_calls (run_callback cb a) = ui_state_calls a @ ui_calls_of cb"
  by (cases cb; simp add: update_status_def set_ui_state_def display_error_state_def
        update_aqi_display_def update_ai_response_def Let_def split: option.splits)+

lemma ui_runs_keeps:
  "list_all keeps_record (queue s) \<Longrightarrow>
     aqi_data (app (ui_runs n s)) = aqi_data (app s) \<and> list_all keeps_record (queue (ui_runs n s))"
  by (induction n arbitrary: s) (auto simp: run_callback_fields split: list.splits)

lemma ui_runs_img_path [simp]: "img_path (app (ui_runs n s)) = img_path (app s)"
  by (induction n arbitrary: s) (auto simp: run_callback_fields split: list.splits)

lemma after_img_path [simp]: "img_path (app (after cb s)) = img_path (app s)"
  by (simp add: after_def Let_def split: list.splits)

lemma after_keeps:
  assumes "keeps_record cb" and "list_all keeps_record (queue s)"
  shows "aqi_data (app (after cb s)) = aqi_data (app s)"
    and "list_all keeps_record (queue (after cb s))"
  using assms ui_runs_keeps [of "s\<lparr>queue := queue s @ [cb], schedule := tl (schedule s)\<rparr>" "hd (schedule s)"]
  by (auto simp: after_def Let_def split: list.splits)

lemma busy_log_final [simp]: "ui_state_calls (final_app s) = busy_log s"
proof -
  have "ui_state_calls (foldl (\<lambda>a cb. run_callback cb a) a q)
          = ui_state_calls a @ concat (map ui_calls_of q)" for a :: "('a, 'b) app" and q
    by (induction q arbitrary: a) (simp_all add: run_callback_fields)
  then show ?thesis by (simp add: final_app_def busy_log_def)
qed

lemma ui_runs_busy_log [simp]: "busy_log (ui_runs n s) = busy_log s"
  by (induction n arbitrary: s) (simp_all add: busy_log_def run_callback_fields split: list.splits)

lemma after_busy_log [simp]: "busy_log (after cb s) = busy_log s @ ui_calls_of cb"
  by (simp add: after_def Let_def split: list.splits) (simp add: busy_log_def)

lemma busy_log_fields [simp]:
  "busy_log (log_call c s) = busy_log s"
  "busy_log (save_record svc world s) = busy_log s"
  "busy_log (s\<lparr> app := (app s)\<lparr> aqi_data := x \<rparr> \<rparr>) = busy_log s"
  "busy_log \<lparr> app = a, queue = [], ran = [], schedule = sched, calls = cs, printed = ps \<rparr> = ui_state_calls a"
  by (simp_all add: busy_log_def log_call_def save_record_def split: option.splits)

lemma all_cbs_fields [simp]:
  "all_cbs (s\<lparr> app := x \<rparr>) = all_cbs s"
  by (simp add: all_cbs_def)

section \<open>Properties of the operations\<close>

lemma geocoder_absent:
  "\<not> gemini_model svc \<Longrightarrow> get_coordinates_from_text lib svc world q = None"
  "gemini_reply world = Inl msg \<Longrightarrow> get_coordinates_from_text lib svc world q = None"
  "gemini_reply world = Inr text \<Longrightarrow> json_loads lib text = None \<Longrightarrow>
     get_coordinates_from_text lib svc world q = None"
  "gemini_reply world = Inr text \<Longrightarrow> json_loads lib text = Some (JObj kvs) \<Longrightarrow>
     map_of kvs ''latitude'' = None \<or> map_of kvs ''latitude'' = Some JNull
       \<or> map_of kvs ''longitude'' = None \<or> map_of kvs ''longitude'' = Some JNull \<Longrightarrow>
     get_coordinates_from_text lib svc world q = None"
  by (auto simp: get_coordinates_from_text_def bind_exn_def split: sum.splits option.splits)

text \<open>
  C7. When the AI geocoder yields no coordinates, then whatever the schedule of the two
  threads, the worker ends without an exception, the only service called is the
  geocoder (the feed is never called), the callbacks run are the status text "Could not
  find", the error state "Location Not Found" and \<open>_set_ui_state(False)\<close>, in this order,
  and the buttons are enabled again.
\<close>

theorem geocode_failure_reports_not_found:
  assumes "get_coordinates_from_text lib svc world query = None"
  shows "case run_thread lib svc world sched (WorkerGeocode query) a of
           (s, r) \<Rightarrow>
             r = None
           \<and> calls s = [GetCoordinatesFromText query]
           \<and> ran s = [UpdateStatus (''Could not find '' @ sq @ query @ sq @ ''.'') ''danger'' False,
                       DisplayErrorState ''Location Not Found'' (sq @ query @ sq @ '' could not be identified.''),
                       SetUiState False]
           \<and> queue s = []
           \<and> status_lbl (app s) = (''Could not find '' @ sq @ query @ sq @ ''.'', ''danger'')
           \<and> aqi_data (app s) = None
           \<and> fetch_btn (app s) = NORMAL \<and> ip_btn (app s) = NORMAL \<and> up_btn (app s) = NORMAL
           \<and> ui_state_calls (app s) = ui_state_calls a @ [False]"
  using assms
  by (simp add: run_thread_def worker_geocode_with_gemini_def Let_def
      set_ui_state_def display_error_state_def update_status_def)

text \<open>
  The model answers with a JSON object whose coordinates are \<open>null\<close>: the query
  ``Atlantis'' is reported as not found, under every schedule of the two threads.
\<close>

theorem geocode_failure_reports_not_found_witness:
  "\<forall>(lib :: (real, string) builtins) svc (world :: real world) sched (a :: (real, string) app).
     case run_thread
            (lib\<lparr>json_loads := \<lambda>text. Some (JObj [(''latitude'', JNull), (''longitude'', JNull)])\<rparr>)
            (svc\<lparr>gemini_model := True\<rparr>)
            (world\<lparr>gemini_reply := Inr ''{latitude: null, longitude: null}''\<rparr>)
            sched (WorkerGeocode ''Atlantis'') a of
       (s, r) \<Rightarrow>
         r = None \<and> calls s = [GetCoordinatesFromText ''Atlantis'']
       \<and> status_lbl (app s) = (''Could not find '' @ sq @ ''Atlantis'' @ sq @ ''.'', ''danger'')
       \<and> fetch_btn (app s) = NORMAL
       \<and> ui_state_calls (app s) = ui_state_calls a @ [False]"
proof (intro allI)
  fix lib :: "(real, string) builtins" and svc :: services and world :: "real world" and sched
    and a :: "(real, string) app"
  let ?lib = "lib\<lparr>json_loads := \<lambda>text. Some (JObj [(''latitude'', JNull), (''longitude'', JNull)])\<rparr>"
  let ?svc = "svc\<lparr>gemini_model := True\<rparr>"
  let ?world = "world\<lparr>gemini_reply := Inr ''{latitude: null, longitude: null}''\<rparr>"
  have "get_coordinates_from_text ?lib ?svc ?world ''Atlantis'' = None"
    by (simp add: get_coordinates_from_text_def bind_exn_def)
  from geocode_failure_reports_not_found [OF this, where sched = sched and a = a]
  show "case run_thread ?lib ?svc ?world sched (WorkerGeocode ''Atlantis'') a of
       (s, r) \<Rightarrow>
         r = None \<and> calls s = [GetCoordinatesFromText ''Atlantis'']
       \<and> status_lbl (app s) = (''Could not find '' @ sq @ ''Atlantis'' @ sq @ ''.'', ''danger'')
       \<and> fetch_btn (app s) = NORMAL
       \<and> ui_state_calls (app s) = ui_state_calls a @ [False]"
    by (simp add: case_prod_beta)
qed

lemma analyze_prepare_store [simp]:
  "analyze_prepare lib (world\<lparr>store_reply := outcome\<rparr>) a = analyze_prepare lib world a"
  "get_ai_response svc (world\<lparr>store_reply := outcome\<rparr>) = get_ai_response svc world"
  by (simp_all add: analyze_prepare_def get_ai_response_def split: option.splits)

lemma save_record_printed:
  "printed (save_record svc world s)
     = printed s @ (if mongo_db svc
                    then (case store_reply world of
                            None \<Rightarrow> []
                          | Some msg \<Rightarrow> [''Failed to save record to MongoDB: '' @ msg])
                    else [])"
  by (simp add: save_record_def split: option.splits)

text \<open>The content types of line 362, for \<open>/\<close> as the path separator.\<close>

lemma content_type_examples:
  "content_type ''/'' ''sky.png'' = Some ''image/png''"
  "content_type ''/'' ''/home/me/Sky.JPG'' = Some ''image/jpeg''"
  "content_type ''/'' ''sky.gif'' = None"
  by code_simp+

text \<open>
  C8. When the image analysis reaches the AI model, then for every outcome of the
  storage call and every schedule: the worker ends without an exception; the callbacks
  run are the analysis text, the status "Analysis complete." and
  \<open>_set_ui_state(False)\<close>, so nothing about the store is shown; the window shows the
  analysis and keeps the record. The store is asked to save exactly when the client
  exists and the record is valid, and when it is asked, has a database handle and
  fails with the text \<open>msg\<close>, the failure is logged: the line "Failed to save record to
  MongoDB: \<open>msg\<close>" is printed, once. Nothing is printed otherwise.
\<close>

theorem storage_outcome_is_invisible:
  assumes "analyze_prepare lib world a = Inr (img_bytes, ctype, prompt)"
    and "img_path a = Some p" and "aqi_data a = Some d"
  shows "case run_thread lib svc (world\<lparr>store_reply := outcome\<rparr>) sched WorkerAnalyzeImg a of
           (s, r) \<Rightarrow>
             r = None
           \<and> ran s = [UpdateAnalysisText (get_ai_response svc world),
                       UpdateStatus ''Analysis complete.'' ''success'' False,
                       SetUiState False]
           \<and> queue s = []
           \<and> app s = set_ui_state False
                       (update_status ''Analysis complete.'' ''success'' False
                          (a\<lparr> analysis_txt := get_ai_response svc world \<rparr>))
           \<and> analysis_txt (app s) = get_ai_response svc world
           \<and> aqi_data (app s) = aqi_data a
           \<and> calls s = GetAiResponse prompt (Some img_bytes) (Some ctype) #
                         (if mongo_client svc \<and> is_valid d
                          then [SaveRecord p ctype d (get_ai_response svc world)] else [])
           \<and> printed s = (if mongo_client svc \<and> is_valid d \<and> mongo_db svc
                          then (case outcome of
                                  None \<Rightarrow> []
                                | Some msg \<Rightarrow> [''Failed to save record to MongoDB: '' @ msg])
                          else [])"
proof -
  let ?s0 = "\<lparr> app = a, queue = [], ran = [], schedule = sched,
               calls = ([] :: ('a, 'b) call list), printed = [] \<rparr>"
  let ?s1 = "log_call (GetAiResponse prompt (Some img_bytes) (Some ctype)) ?s0"
  let ?s2 = "after (UpdateAnalysisText (get_ai_response svc world)) ?s1"
  let ?s3 = "after (UpdateStatus ''Analysis complete.'' ''success'' False) ?s2"
  have q1: "list_all keeps_record (queue ?s1)" by simp
  have k2: "aqi_data (app ?s2) = aqi_data (app ?s1)" "list_all keeps_record (queue ?s2)"
    using after_keeps [OF _ q1, of "UpdateAnalysisText (get_ai_response svc world)"] by simp_all
  have k3: "aqi_data (app ?s3) = aqi_data (app ?s2)"
    using after_keeps(1) [OF _ k2(2), of "UpdateStatus ''Analysis complete.'' ''success'' False"]
    by simp
  have rec: "aqi_data (app ?s3) = Some d" using k2(1) k3 assms(3) by simp
  have pth: "img_path (app ?s3) = Some p" using assms(2) by simp
  show ?thesis
    using assms(1) rec pth
    by (simp add: run_thread_def worker_analyze_img_def Let_def save_record_printed
        set_ui_state_def update_status_def)
qed

text \<open>
  A PNG image, a valid record for Paris and a store whose insertion fails: the analysis is
  shown, the record is unchanged, no exception leaves the worker, and the failure is
  printed.
\<close>

theorem storage_outcome_is_invisible_witness:
  "\<forall>(lib :: (real, string) builtins) (svc :: services) (world :: real world) sched
      (a :: (real, string) app) (d :: (real, string) AQIData).
     case run_thread (lib\<lparr>path_seps := ''/''\<rparr>) (svc\<lparr>mongo_client := True, mongo_db := True\<rparr>)
            ((world\<lparr>file_read := Inr ''bytes''\<rparr>)\<lparr>store_reply := Some ''connection lost''\<rparr>)
            sched WorkerAnalyzeImg
            (a\<lparr>img_path := Some ''sky.png'',
               aqi_data := Some (d\<lparr>is_valid := True, city := Some ''Paris'', overall_aqi := Some 42,
                                    aqi_category_name := Some ''Good'',
                                    dominant_pollutant := Some ''PM25''\<rparr>)\<rparr>) of
       (s, r) \<Rightarrow>
         r = None
       \<and> ran s = [UpdateAnalysisText
                     (get_ai_response (svc\<lparr>mongo_client := True, mongo_db := True\<rparr>)
                        (world\<lparr>file_read := Inr ''bytes''\<rparr>)),
                   UpdateStatus ''Analysis complete.'' ''success'' False,
                   SetUiState False]
       \<and> analysis_txt (app s)
           = get_ai_response (svc\<lparr>mongo_client := True, mongo_db := True\<rparr>)
               (world\<lparr>file_read := Inr ''bytes''\<rparr>)
       \<and> aqi_data (app s) = Some (d\<lparr>is_valid := True, city := Some ''Paris'', overall_aqi := Some 42,
                                    aqi_category_name := Some ''Good'',
                                    dominant_pollutant := Some ''PM25''\<rparr>)
       \<and> length (calls s) = 2
       \<and> printed s = [''Failed to save record to MongoDB: connection lost'']"
proof (intro allI)
  fix lib :: "(real, string) builtins" and svc :: services and world :: "real world" and sched
    and a :: "(real, string) app" and d :: "(real, string) AQIData"
  let ?lib = "lib\<lparr>path_seps := ''/''\<rparr>"
  let ?svc = "svc\<lparr>mongo_client := True, mongo_db := True\<rparr>"
  let ?d = "d\<lparr>is_valid := True, city := Some ''Paris'', overall_aqi := Some 42,
               aqi_category_name := Some ''Good'', dominant_pollutant := Some ''PM25''\<rparr>"
  let ?a = "a\<lparr>img_path := Some ''sky.png'', aqi_data := Some ?d\<rparr>"
  let ?w = "world\<lparr>file_read := Inr ''bytes''\<rparr>"
  have prep: "analyze_prepare ?lib ?w ?a
      = Inr (''bytes'', ''image/png'', AnalystPrompt ''Paris'' 42 ''Good'' ''PM25'')"
    by (simp add: analyze_prepare_def content_type_examples)
  have pth: "img_path ?a = Some ''sky.png''" and rec: "aqi_data ?a = Some ?d" by simp_all
  from storage_outcome_is_invisible [OF prep pth rec, where svc = ?svc and sched = sched
      and outcome = "Some ''connection lost''"]
  show "case run_thread ?lib ?svc (?w\<lparr>store_reply := Some ''connection lost''\<rparr>)
            sched WorkerAnalyzeImg ?a of
       (s, r) \<Rightarrow>
         r = None
       \<and> ran s = [UpdateAnalysisText (get_ai_response ?svc ?w),
                   UpdateStatus ''Analysis complete.'' ''success'' False,
                   SetUiState False]
       \<and> analysis_txt (app s) = get_ai_response ?svc ?w
       \<and> aqi_data (app s) = Some ?d
       \<and> length (calls s) = 2
       \<and> printed s = [''Failed to save record to MongoDB: connection lost'']"
    by (simp add: case_prod_beta set_ui_state_def update_status_def)
qed

text \<open>
  C2. The IP service answers a request from a reserved address with a JSON object that
  has no \<open>latitude\<close>. For this answer and every schedule, \<open>loc['latitude']\<close> raises
  \<open>KeyError\<close>, the exception leaves \<open>_worker_fetch_by_ip\<close>, no error message is
  scheduled, and the buttons stay disabled.
\<close>

theorem ip_reply_without_latitude_escapes:
  "case fetch_aqi_by_ip_address a of
     (a1, started) \<Rightarrow>
       started = Started WorkerFetchByIp
     \<and> (case run_thread lib svc
               (world\<lparr>ip_reply := Some (JObj [(''error'', JBool True),
                                               (''reason'', JStr ''Reserved IP Address'')])\<rparr>)
               sched WorkerFetchByIp a1 of
          (s, r) \<Rightarrow>
            r = Some KeyError
          \<and> queue s = []
          \<and> ran s = [EntryDelete, EntryInsert (py_str lib JNull @ '', '' @ py_str lib JNull)]
          \<and> ui_state_calls (app s) = ui_state_calls a @ [True]
          \<and> fetch_btn (app s) = DISABLED \<and> ip_btn (app s) = DISABLED \<and> up_btn (app s) = DISABLED)"
  by (simp add: fetch_aqi_by_ip_address_def run_thread_def worker_fetch_by_ip_def Let_def
      get_location_from_ip_def bind_exn_def set_ui_state_def update_status_def)

text \<open>The service calls of a worker do not depend on the schedule of the two threads.\<close>

lemma worker_fetch_aqi_data_calls:
  "calls (fst (worker_fetch_aqi_data lib svc world (JFloat x) (JFloat y) s0))
     = calls s0 @ [GetLatestAqiByCoords (JFloat x) (JFloat y)]"
  by (simp add: worker_fetch_aqi_data_def Let_def bind_exn_def
      split: sum.splits bool.splits)

lemma worker_geocode_calls:
  "calls (fst (worker_geocode_with_gemini lib svc world query s0))
     = calls s0 @ GetCoordinatesFromText query #
         (case get_coordinates_from_text lib svc world query of
            None \<Rightarrow> []
          | Some (lat, lon, name) \<Rightarrow> [GetLatestAqiByCoords (JFloat lat) (JFloat lon)])"
  by (simp add: worker_geocode_with_gemini_def Let_def worker_fetch_aqi_data_calls
      split: option.splits)

lemma run_thread_calls:
  "calls (fst (run_thread lib svc world sched w a))
     = calls (fst (run_worker lib svc world w
         \<lparr> app = a, queue = [], ran = [], schedule = sched, calls = [], printed = [] \<rparr>))"
  by (simp add: run_thread_def case_prod_beta)

text \<open>The pattern of line 280 on some entries.\<close>

lemma coord_re_examples:
  "re_match_anchored coord_re ''48.85, 2.35''"
  "re_match_anchored coord_re ''-7.,110''"
  "\<not> re_match_anchored coord_re ''Paris''"
  "\<not> re_match_anchored coord_re ''48.85 , 2.35''"
  "\<not> re_match_anchored coord_re ''.5,1''"
  "re_match_anchored coord_re [CHR ''1'', CHR '','', CHR 0x1F, CHR ''2'']"
  by code_simp+

text \<open>
  Where the coordinate branch works. Let \<open>float\<close> accept every text made of whitespace
  that it drops, an optional minus sign, digits, an optional dot, digits and such
  whitespace again, as Python's does. A query that is not empty, matches the pattern of
  line 280 and has no separator character (28 to 31) in it is converted at its comma to
  the latitude and the longitude, the worker started is the air-quality fetch for them,
  and under every schedule the only service that thread calls is the feed.
\<close>

lemma plain_coordinate_query_fetches:
  assumes "\<And>s. matches float_text_re s \<Longrightarrow> float_of_str lib s \<noteq> None"
    and "strip (loc_entry a) = query" and "query \<noteq> []"
    and "re_match_anchored coord_re query"
    and "\<forall>c \<in> set query. is_space c \<longrightarrow> is_num_space c"
  shows "\<exists>p1 p2 lat lon.
           split_on CHR '','' query = [p1, p2]
         \<and> float_of_str lib p1 = Some lat \<and> float_of_str lib p2 = Some lon
         \<and> fetch_by_input lib a
             = (set_ui_state True a, Started (WorkerFetchAqiData (JFloat lat) (JFloat lon)))
         \<and> calls (fst (run_thread lib svc world sched
                         (WorkerFetchAqiData (JFloat lat) (JFloat lon)) (set_ui_state True a)))
             = [GetLatestAqiByCoords (JFloat lat) (JFloat lon)]"
proof -
  from coord_split [OF assms(4,5)] obtain p1 p2 where sp: "split_on CHR '','' query = [p1, p2]"
    and m1: "matches float_text_re p1" and m2: "matches float_text_re p2" by blast
  from assms(1) [OF m1] obtain lat where lat: "float_of_str lib p1 = Some lat" by auto
  from assms(1) [OF m2] obtain lon where lon: "float_of_str lib p2 = Some lon" by auto
  have "fetch_by_input lib a
          = (set_ui_state True a, Started (WorkerFetchAqiData (JFloat lat) (JFloat lon)))"
    using assms(2,3,4) sp lat lon by (simp add: fetch_by_input_def Let_def)
  moreover have "calls (fst (run_thread lib svc world sched
                               (WorkerFetchAqiData (JFloat lat) (JFloat lon)) (set_ui_state True a)))
                   = [GetLatestAqiByCoords (JFloat lat) (JFloat lon)]"
    by (simp add: run_thread_calls worker_fetch_aqi_data_calls)
  ultimately show ?thesis using sp lat lon by auto
qed

text \<open>
  A query that is not empty and does not match the pattern starts the geocoding worker
  for the query as typed, and the first service that worker calls is the AI geocoder,
  with that query.
\<close>

lemma other_query_calls_geocoder:
  assumes "strip (loc_entry a) = query" and "query \<noteq> []"
    and "\<not> re_match_anchored coord_re query"
  shows "fetch_by_input lib a
           = (update_status (''Finding '' @ sq @ query @ sq @ ''...'') ''info'' True
                (set_ui_state True a),
              Started (WorkerGeocode query))"
    and "calls (fst (run_thread lib svc world sched (WorkerGeocode query)
                       (fst (fetch_by_input lib a))))
           = GetCoordinatesFromText query #
               (case get_coordinates_from_text lib svc world query of
                  None \<Rightarrow> []
                | Some (lat, lon, name) \<Rightarrow> [GetLatestAqiByCoords (JFloat lat) (JFloat lon)])"
  using assms
  by (simp_all add: fetch_by_input_def Let_def run_thread_calls worker_geocode_calls)

text \<open>
  C5. The pattern of line 280 lets a separator character stand after the comma, since
  \<open>\s\<close> matches it, and \<open>strip\<close> leaves it where it is; \<open>float\<close> does not drop it and
  raises \<open>ValueError\<close>. For the entry of the four characters \<open>1\<close>, comma, unit
  separator (31) and \<open>2\<close>, the query is not empty and matches the pattern, the handler
  ends with the \<open>ValueError\<close> of \<open>float\<close> after it has called \<open>_set_ui_state(True)\<close>, and
  no thread is started: the two numbers are not parsed, the air-quality fetch does not
  happen, and the buttons stay disabled.
\<close>

theorem separator_query_raises:
  assumes "float_of_str lib [CHR 0x1F, CHR ''2''] = None"
  shows "strip [CHR ''1'', CHR '','', CHR 0x1F, CHR ''2''] = [CHR ''1'', CHR '','', CHR 0x1F, CHR ''2'']
       \<and> re_match_anchored coord_re [CHR ''1'', CHR '','', CHR 0x1F, CHR ''2'']
       \<and> fetch_by_input lib (a\<lparr>loc_entry := [CHR ''1'', CHR '','', CHR 0x1F, CHR ''2'']\<rparr>)
           = (set_ui_state True (a\<lparr>loc_entry := [CHR ''1'', CHR '','', CHR 0x1F, CHR ''2'']\<rparr>),
              Raised ValueError)
       \<and> fetch_btn (fst (fetch_by_input lib
                               (a\<lparr>loc_entry := [CHR ''1'', CHR '','', CHR 0x1F, CHR ''2'']\<rparr>)))
           = DISABLED"
proof -
  have st: "strip [CHR ''1'', CHR '','', CHR 0x1F, CHR ''2''] = [CHR ''1'', CHR '','', CHR 0x1F, CHR ''2'']"
    by (simp add: strip_def is_space_def)
  have f: "fetch_by_input lib (a\<lparr>loc_entry := [CHR ''1'', CHR '','', CHR 0x1F, CHR ''2'']\<rparr>)
           = (set_ui_state True (a\<lparr>loc_entry := [CHR ''1'', CHR '','', CHR 0x1F, CHR ''2'']\<rparr>),
              Raised ValueError)"
    using assms by (simp add: fetch_by_input_def Let_def st coord_re_examples split: option.splits)
  show ?thesis by (simp add: st coord_re_examples f) (simp add: set_ui_state_def)
qed

text \<open>
  A \<open>float\<close> that accepts the text \<open>1\<close> and no other: the handler raises, and the only
  call of \<open>_set_ui_state\<close> is the one that disables the buttons.
\<close>

theorem separator_query_raises_witness:
  "\<forall>(lib :: (real, string) builtins) (a :: (real, string) app).
     fetch_by_input (lib\<lparr>float_of_str := \<lambda>s. if s = ''1'' then Some 1 else None\<rparr>)
         (a\<lparr>loc_entry := [CHR ''1'', CHR '','', CHR 0x1F, CHR ''2'']\<rparr>)
       = (set_ui_state True (a\<lparr>loc_entry := [CHR ''1'', CHR '','', CHR 0x1F, CHR ''2'']\<rparr>),
          Raised ValueError)
   \<and> ui_state_calls
         (fst (fetch_by_input (lib\<lparr>float_of_str := \<lambda>s. if s = ''1'' then Some 1 else None\<rparr>)
                 (a\<lparr>loc_entry := [CHR ''1'', CHR '','', CHR 0x1F, CHR ''2'']\<rparr>)))
       = ui_state_calls a @ [True]"
proof (intro allI)
  fix lib :: "(real, string) builtins" and a :: "(real, string) app"
  let ?lib = "lib\<lparr>float_of_str := \<lambda>s. if s = ''1'' then Some 1 else None\<rparr>"
  let ?a = "a\<lparr>loc_entry := [CHR ''1'', CHR '','', CHR 0x1F, CHR ''2'']\<rparr>"
  have "float_of_str ?lib [CHR 0x1F, CHR ''2''] = None" by simp
  from separator_query_raises [OF this, of a]
  have f: "fetch_by_input ?lib ?a = (set_ui_state True ?a, Raised ValueError)" by simp
  show "fetch_by_input ?lib ?a = (set_ui_state True ?a, Raised ValueError)
      \<and> ui_state_calls (fst (fetch_by_input ?lib ?a)) = ui_state_calls a @ [True]"
    by (simp add: f) (simp add: set_ui_state_def)
qed

text \<open>
  The entry \<open>48.85, 2.35\<close> between blanks, and the entry \<open>Paris\<close>, with floats
  represented by their text.
\<close>

lemma coordinate_query_examples:
  fixes lib :: "(string, string) builtins" and world :: "string world"
    and a :: "(string, string) app"
  shows "fetch_by_input (lib\<lparr>float_of_str := Some\<rparr>) (a\<lparr>loc_entry := '' 48.85, 2.35 ''\<rparr>)
       = (set_ui_state True (a\<lparr>loc_entry := '' 48.85, 2.35 ''\<rparr>),
          Started (WorkerFetchAqiData (JFloat ''48.85'') (JFloat '' 2.35'')))"
    and "calls (fst (run_thread (lib\<lparr>float_of_str := Some\<rparr>) svc world sched
                    (WorkerFetchAqiData (JFloat ''48.85'') (JFloat '' 2.35''))
                    (set_ui_state True (a\<lparr>loc_entry := '' 48.85, 2.35 ''\<rparr>))))
       = [GetLatestAqiByCoords (JFloat ''48.85'') (JFloat '' 2.35'')]"
    and "snd (fetch_by_input (lib\<lparr>float_of_str := Some\<rparr>) (a\<lparr>loc_entry := ''Paris''\<rparr>))
       = Started (WorkerGeocode ''Paris'')"
    and "hd (calls (fst (run_thread (lib\<lparr>float_of_str := Some\<rparr>) svc world sched
                        (WorkerGeocode ''Paris'')
                        (fst (fetch_by_input (lib\<lparr>float_of_str := Some\<rparr>)
                                (a\<lparr>loc_entry := ''Paris''\<rparr>))))))
       = GetCoordinatesFromText ''Paris''"
proof -
  let ?lib = "lib\<lparr>float_of_str := Some\<rparr>"
  let ?a1 = "a\<lparr>loc_entry := '' 48.85, 2.35 ''\<rparr>"
  let ?a2 = "a\<lparr>loc_entry := ''Paris''\<rparr>"
  have fl: "float_of_str ?lib s \<noteq> None" if "matches float_text_re s" for s by simp
  have s1: "strip (loc_entry ?a1) = ''48.85, 2.35''" by (simp add: strip_def is_space_def)
  have s2: "strip (loc_entry ?a2) = ''Paris''" by (simp add: strip_def is_space_def)
  have ws: "\<forall>c \<in> set ''48.85, 2.35''. is_space c \<longrightarrow> is_num_space c"
    by (simp add: is_space_def is_num_space_def)
  have c1: "fetch_by_input ?lib ?a1
       = (set_ui_state True ?a1, Started (WorkerFetchAqiData (JFloat ''48.85'') (JFloat '' 2.35'')))
   \<and> calls (fst (run_thread ?lib svc world sched
                    (WorkerFetchAqiData (JFloat ''48.85'') (JFloat '' 2.35''))
                    (set_ui_state True ?a1)))
       = [GetLatestAqiByCoords (JFloat ''48.85'') (JFloat '' 2.35'')]"
    using plain_coordinate_query_fetches [of ?lib ?a1 "''48.85, 2.35''" svc world sched, OF fl s1 _ _ ws]
    by (simp add: coord_re_examples)
  from c1 show "fetch_by_input ?lib ?a1
       = (set_ui_state True ?a1, Started (WorkerFetchAqiData (JFloat ''48.85'') (JFloat '' 2.35'')))"
    by (rule conjunct1)
  from c1 show "calls (fst (run_thread ?lib svc world sched
                    (WorkerFetchAqiData (JFloat ''48.85'') (JFloat '' 2.35''))
                    (set_ui_state True ?a1)))
       = [GetLatestAqiByCoords (JFloat ''48.85'') (JFloat '' 2.35'')]"
    by (rule conjunct2)
  have np: "\<not> re_match_anchored coord_re ''Paris''" by (rule coord_re_examples)
  show "snd (fetch_by_input ?lib ?a2) = Started (WorkerGeocode ''Paris'')"
    using other_query_calls_geocoder(1) [OF s2 _ np, of ?lib] by simp
  show "hd (calls (fst (run_thread ?lib svc world sched (WorkerGeocode ''Paris'')
                        (fst (fetch_by_input ?lib ?a2)))))
       = GetCoordinatesFromText ''Paris''"
    using other_query_calls_geocoder(2) [OF s2 _ np, of ?lib svc world sched] by simp
qed

text \<open>
  With the image \<open>sky.gif\<close> and a valid record, \<open>analyze_img\<close> shows no message box:
  it sets the window busy and starts the worker. The extension is looked at on line 362,
  inside the worker.
\<close>

theorem gif_starts_worker:
  "content_type ''/'' ''sky.gif'' = None
   \<and> snd (analyze_img gif_window) = Started WorkerAnalyzeImg
   \<and> message_boxes (fst (analyze_img gif_window)) = []
   \<and> ui_state_calls (fst (analyze_img gif_window)) = [True]"
  by (simp add: content_type_examples analyze_img_def gif_window_def paris_record_def
      no_path_def set_ui_state_def update_status_def)

text \<open>
  C6. When no image is loaded, or the record is absent or invalid, \<open>analyze_img\<close> shows
  the message box ``Analysis Blocked'' at once, changes nothing else and starts no
  thread. When an image and a valid record are there, the file can be read and its
  extension is none of \<open>jpg\<close>, \<open>jpeg\<close>, \<open>png\<close>, \<open>webp\<close>, the handler shows no message box
  and starts the worker; under every schedule the worker calls no service, ends without
  an exception, and reports ``Unsupported image format'' through the status line and
  the analysis text, from callbacks on the UI thread, the last of which is
  \<open>_set_ui_state(False)\<close>.
\<close>

theorem analyze_img_validation:
  "(no_path (img_path a) \<or> (case aqi_data a of None \<Rightarrow> True | Some d \<Rightarrow> \<not> is_valid d)
      \<longrightarrow> analyze_img a
            = (a\<lparr> message_boxes := message_boxes a @
                    [(''Analysis Blocked'', ''Upload image and fetch valid AQI data first.'')] \<rparr>,
               NoThread))
   \<and> (img_path a = Some p \<and> p \<noteq> [] \<and> aqi_data a = Some d \<and> is_valid d
        \<and> file_read world = Inr img_bytes \<and> content_type (path_seps lib) p = None
      \<longrightarrow> (case analyze_img a of
             (a1, started) \<Rightarrow>
               started = Started WorkerAnalyzeImg
             \<and> message_boxes a1 = message_boxes a
             \<and> ui_state_calls a1 = ui_state_calls a @ [True]
             \<and> (case run_thread lib svc world sched WorkerAnalyzeImg a1 of
                  (s, r) \<Rightarrow>
                    r = None
                  \<and> calls s = []
                  \<and> queue s = []
                  \<and> ran s = [UpdateStatus ''Image analysis failed: Unsupported image format''
                                ''danger'' False,
                              UpdateAnalysisText ''Error: Unsupported image format'',
                              SetUiState False]
                  \<and> status_lbl (app s)
                      = (''Image analysis failed: Unsupported image format'', ''danger'')
                  \<and> analysis_txt (app s) = ''Error: Unsupported image format''
                  \<and> message_boxes (app s) = message_boxes a
                  \<and> ui_state_calls (app s) = ui_state_calls a @ [True, False])))"
proof (intro conjI impI)
  assume "no_path (img_path a) \<or> (case aqi_data a of None \<Rightarrow> True | Some d \<Rightarrow> \<not> is_valid d)"
  then show "analyze_img a
            = (a\<lparr> message_boxes := message_boxes a @
                    [(''Analysis Blocked'', ''Upload image and fetch valid AQI data first.'')] \<rparr>,
               NoThread)"
    by (simp add: analyze_img_def)
next
  let ?a1 = "update_status ''Analyzing sky image...'' ''info'' True (set_ui_state True a)"
  assume h: "img_path a = Some p \<and> p \<noteq> [] \<and> aqi_data a = Some d \<and> is_valid d
        \<and> file_read world = Inr img_bytes \<and> content_type (path_seps lib) p = None"
  then have st: "analyze_img a = (?a1, Started WorkerAnalyzeImg)"
    by (simp add: analyze_img_def no_path_def)
  from h have prep: "analyze_prepare lib world ?a1 = Inl ''Unsupported image format''"
    by (simp add: analyze_prepare_def update_status_def set_ui_state_def)
  show "case analyze_img a of
             (a1, started) \<Rightarrow>
               started = Started WorkerAnalyzeImg
             \<and> message_boxes a1 = message_boxes a
             \<and> ui_state_calls a1 = ui_state_calls a @ [True]
             \<and> (case run_thread lib svc world sched WorkerAnalyzeImg a1 of
                  (s, r) \<Rightarrow>
                    r = None
                  \<and> calls s = []
                  \<and> queue s = []
                  \<and> ran s = [UpdateStatus ''Image analysis failed: Unsupported image format''
                                ''danger'' False,
                              UpdateAnalysisText ''Error: Unsupported image format'',
                              SetUiState False]
                  \<and> status_lbl (app s)
                      = (''Image analysis failed: Unsupported image format'', ''danger'')
                  \<and> analysis_txt (app s) = ''Error: Unsupported image format''
                  \<and> message_boxes (app s) = message_boxes a
                  \<and> ui_state_calls (app s) = ui_state_calls a @ [True, False])"
    unfolding st
    by (simp add: prep run_thread_def worker_analyze_img_def Let_def)
       (simp add: update_status_def set_ui_state_def)
qed

text \<open>
  The example window without its image, without its record, and as it is with
  \<open>sky.gif\<close>.
\<close>

theorem analyze_img_validation_witness:
  "\<forall>(lib :: (real, string) builtins) svc (world :: real world) sched.
     analyze_img (gif_window\<lparr> img_path := None \<rparr>)
       = (gif_window\<lparr> img_path := None,
            message_boxes := [(''Analysis Blocked'', ''Upload image and fetch valid AQI data first.'')] \<rparr>,
          NoThread)
   \<and> analyze_img (gif_window\<lparr> aqi_data := None \<rparr>)
       = (gif_window\<lparr> aqi_data := None,
            message_boxes := [(''Analysis Blocked'', ''Upload image and fetch valid AQI data first.'')] \<rparr>,
          NoThread)
   \<and> (case run_thread (lib\<lparr>path_seps := ''/''\<rparr>) svc (world\<lparr>file_read := Inr ''GIF89a''\<rparr>) sched
               WorkerAnalyzeImg (fst (analyze_img gif_window)) of
         (s, r) \<Rightarrow>
           r = None \<and> calls s = []
         \<and> status_lbl (app s) = (''Image analysis failed: Unsupported image format'', ''danger'')
         \<and> ui_state_calls (app s) = [True, False])"
proof (intro allI conjI)
  fix lib :: "(real, string) builtins" and svc :: services and world :: "real world" and sched
  let ?lib = "lib\<lparr>path_seps := ''/''\<rparr>"
  let ?w = "world\<lparr>file_read := Inr ''GIF89a''\<rparr>"
  let ?box = "[(''Analysis Blocked'', ''Upload image and fetch valid AQI data first.'')]"
  have "no_path (img_path (gif_window\<lparr> img_path := None \<rparr>))
        \<or> (case aqi_data (gif_window\<lparr> img_path := None \<rparr>) of None \<Rightarrow> True | Some d \<Rightarrow> \<not> is_valid d)"
    by (simp add: no_path_def)
  with analyze_img_validation [of "gif_window\<lparr> img_path := None \<rparr>"]
  show "analyze_img (gif_window\<lparr> img_path := None \<rparr>)
       = (gif_window\<lparr> img_path := None, message_boxes := ?box \<rparr>, NoThread)"
    by (simp add: gif_window_def no_path_def)
  have "no_path (img_path (gif_window\<lparr> aqi_data := None \<rparr>))
        \<or> (case aqi_data (gif_window\<lparr> aqi_data := None \<rparr>) of None \<Rightarrow> True | Some d \<Rightarrow> \<not> is_valid d)"
    by simp
  with analyze_img_validation [of "gif_window\<lparr> aqi_data := None \<rparr>"]
  show "analyze_img (gif_window\<lparr> aqi_data := None \<rparr>)
       = (gif_window\<lparr> aqi_data := None, message_boxes := ?box \<rparr>, NoThread)"
    by (simp add: gif_window_def no_path_def)
  have "img_path gif_window = Some ''sky.gif'' \<and> ''sky.gif'' \<noteq> []
        \<and> aqi_data gif_window = Some paris_record \<and> is_valid paris_record
        \<and> file_read ?w = Inr ''GIF89a'' \<and> content_type (path_seps ?lib) ''sky.gif'' = None"
    by (simp add: gif_window_def paris_record_def content_type_examples)
  with analyze_img_validation [of gif_window "''sky.gif''" paris_record ?w "''GIF89a''" ?lib svc sched]
  show "case run_thread ?lib svc ?w sched WorkerAnalyzeImg (fst (analyze_img gif_window)) of
         (s, r) \<Rightarrow>
           r = None \<and> calls s = []
         \<and> status_lbl (app s) = (''Image analysis failed: Unsupported image format'', ''danger'')
         \<and> ui_state_calls (app s) = [True, False]"
    by (auto simp: case_prod_beta gif_window_def)
qed

section \<open>The busy state\<close>

text \<open>
  Every handler that starts a worker has called \<open>_set_ui_state(True)\<close> before, once.
\<close>

lemma trigger_sets_busy:
  "fetch_aqi_by_ip_address a = (a1, Started w) \<Longrightarrow> ui_state_calls a1 = ui_state_calls a @ [True]"
  "fetch_by_input lib a = (a1, Started w) \<Longrightarrow> ui_state_calls a1 = ui_state_calls a @ [True]"
  "ask_ai_assistant question button_text a = (a1, Started w) \<Longrightarrow>
     ui_state_calls a1 = ui_state_calls a @ [True]"
  "analyze_img a = (a1, Started w) \<Longrightarrow> ui_state_calls a1 = ui_state_calls a @ [True]"
  by (auto simp: fetch_aqi_by_ip_address_def fetch_by_input_def ask_ai_assistant_def
      analyze_img_def Let_def set_ui_state_def update_status_def
      split: if_splits list.splits option.splits)

lemma busy_log_app_update:
  "ui_state_calls a' = ui_state_calls (app s) \<Longrightarrow> busy_log (s\<lparr> app := a' \<rparr>) = busy_log s"
  by (simp add: busy_log_def)

text \<open>
  When no exception ends the worker, then under every schedule \<open>_set_ui_state(False)\<close>
  is called once, by the last callback of the chain.
\<close>

lemma fetch_aqi_data_busy:
  assumes "worker_fetch_aqi_data lib svc world lat lon s0 = (s, None)"
  shows "busy_log s = busy_log s0 @ [False] \<and> all_cbs s \<noteq> []
         \<and> ui_calls_of (last (all_cbs s)) = [False]"
  using assms
  by (auto simp: worker_fetch_aqi_data_def Let_def busy_log_app_update
      split: sum.splits bool.splits if_splits)

lemma worker_busy:
  assumes "run_worker lib svc world w s0 = (s, None)"
  shows "busy_log s = busy_log s0 @ [False] \<and> all_cbs s \<noteq> []
         \<and> ui_calls_of (last (all_cbs s)) = [False]"
proof (cases w)
  case WorkerFetchByIp
  with assms show ?thesis
    by (auto simp: worker_fetch_by_ip_def Let_def dest!: fetch_aqi_data_busy
        split: sum.splits if_splits prod.splits)
next
  case (WorkerFetchAqiData lat lon)
  with assms show ?thesis by (simp add: fetch_aqi_data_busy)
next
  case (WorkerGeocode q)
  with assms show ?thesis
    by (auto simp: worker_geocode_with_gemini_def Let_def dest!: fetch_aqi_data_busy
        split: option.splits)
next
  case (WorkerAskAi q)
  with assms show ?thesis
    by (auto simp: worker_ask_ai_def Let_def update_ai_response_def split: sum.splits)
next
  case WorkerAnalyzeImg
  with assms show ?thesis
    by (auto simp: worker_analyze_img_def Let_def split: sum.splits option.splits if_splits)
qed

lemma busy_cleared_once:
  assumes "run_thread lib svc world sched w a = (s, None)"
  shows "ui_state_calls (app s) = ui_state_calls a @ [False] \<and> queue s = [] \<and> ran s \<noteq> []
         \<and> ui_calls_of (last (ran s)) = [False]"
proof -
  let ?s0 = "\<lparr> app = a, queue = [], ran = [], schedule = sched,
               calls = ([] :: ('a, 'b) call list), printed = [] \<rparr>"
  obtain s1 where w: "run_worker lib svc world w ?s0 = (s1, None)" and s: "s = mainloop s1"
    using assms by (auto simp: run_thread_def split: prod.splits)
  from worker_busy [OF w] show ?thesis by (simp add: s)
qed

lemma ui_runs_empty: "queue s = [] \<Longrightarrow> ui_runs n s = s"
  by (cases n) simp_all

text \<open>
  A response with status \<open>ok\<close> whose index is \<open>null\<close>: \<open>int\<close> raises \<open>TypeError\<close>, which
  line 86 catches, so the record is constructed and is invalid.
\<close>

lemma init_null_aqi_invalid:
  "AQIData_init lib (JObj [(''status'', JStr ''ok''), (''data'', JObj [(''aqi'', JNull)])])
     = Inr (new_object\<lparr>is_valid := False\<rparr>)"
  by (simp add: AQIData_init_def init_body_def bind_exn_def new_object_def caught_def)

text \<open>
  C3. For that response, \<open>_worker_fetch_aqi_data\<close> schedules \<open>_display_error_state\<close>,
  which sets the current record to \<open>None\<close>, and then reads \<open>self.aqi_data.is_valid\<close> once
  more (line 289). When the UI thread has run a callback after each of the first two
  calls of \<open>after\<close>, the record is \<open>None\<close> at that moment: the read raises
  \<open>AttributeError\<close>, the worker ends there, and the \<open>_set_ui_state(False)\<close> of line 291
  is never scheduled. The window was made busy by the handler and stays busy: the
  buttons are disabled and the progress bar runs.
\<close>

theorem parse_error_race_leaves_busy:
  "case run_thread lib (svc\<lparr>waqi_token := Some ''token''\<rparr>)
          (world\<lparr>feed_reply := Inr (JObj [(''status'', JStr ''ok''),
                                            (''data'', JObj [(''aqi'', JNull)])])\<rparr>)
          (Suc m # Suc n # rest) (WorkerFetchAqiData (JFloat x) (JFloat y))
          (set_ui_state True a) of
     (s, r) \<Rightarrow>
       r = Some AttributeError
     \<and> queue s = []
     \<and> ran s = [UpdateStatus (''Fetching AQI near ('' @ format_2f lib x @ '','' @ format_2f lib y
                                @ '')...'') ''info'' True,
                 DisplayErrorState ''Parse Error'' ''Could not process API data.'']
     \<and> aqi_data (app s) = None
     \<and> ui_state_calls (app s) = ui_state_calls a @ [True]
     \<and> fetch_btn (app s) = DISABLED \<and> ip_btn (app s) = DISABLED \<and> up_btn (app s) = DISABLED
     \<and> p_bar (app s) = True"
  by (simp add: run_thread_def worker_fetch_aqi_data_def get_latest_aqi_by_coords_def
      init_null_aqi_invalid bind_exn_def read_is_valid_def after_def log_call_def Let_def ui_runs_empty
      mainloop_def set_ui_state_def update_status_def display_error_state_def)

text \<open>
  The UI thread runs one callback after each call of \<open>after\<close>: the worker ends with
  \<open>AttributeError\<close>, and the only call of \<open>_set_ui_state\<close> is the handler's.
\<close>

theorem parse_error_race_leaves_busy_witness:
  "\<forall>(lib :: (real, string) builtins) (svc :: services) (world :: real world)
      (a :: (real, string) app).
     snd (run_thread lib (svc\<lparr>waqi_token := Some ''token''\<rparr>)
            (world\<lparr>feed_reply := Inr (JObj [(''status'', JStr ''ok''),
                                              (''data'', JObj [(''aqi'', JNull)])])\<rparr>)
            [1, 1] (WorkerFetchAqiData (JFloat 48.85) (JFloat 2.35)) (set_ui_state True a))
       = Some AttributeError
   \<and> ui_state_calls (app (fst (run_thread lib (svc\<lparr>waqi_token := Some ''token''\<rparr>)
            (world\<lparr>feed_reply := Inr (JObj [(''status'', JStr ''ok''),
                                              (''data'', JObj [(''aqi'', JNull)])])\<rparr>)
            [1, 1] (WorkerFetchAqiData (JFloat 48.85) (JFloat 2.35)) (set_ui_state True a))))
       = ui_state_calls a @ [True]"
proof (intro allI)
  fix lib :: "(real, string) builtins" and svc :: services and world :: "real world"
    and a :: "(real, string) app"
  let ?run = "run_thread lib (svc\<lparr>waqi_token := Some ''token''\<rparr>)
            (world\<lparr>feed_reply := Inr (JObj [(''status'', JStr ''ok''),
                                              (''data'', JObj [(''aqi'', JNull)])])\<rparr>)
            [1, 1] (WorkerFetchAqiData (JFloat 48.85) (JFloat 2.35)) (set_ui_state True a)"
  from parse_error_race_leaves_busy [where lib = lib and svc = svc and world = world
      and m = 0 and n = 0 and rest = "[]" and x = "48.85" and y = "2.35" and a = a]
  show "snd ?run = Some AttributeError
      \<and> ui_state_calls (app (fst ?run)) = ui_state_calls a @ [True]"
    by (simp add: case_prod_beta)
qed

text \<open>
  When the UI thread runs no callback before the worker has ended, the same response
  is reported and the busy state is cleared.
\<close>

lemma parse_error_without_race:
  "case run_thread lib (svc\<lparr>waqi_token := Some ''token''\<rparr>)
          (world\<lparr>feed_reply := Inr (JObj [(''status'', JStr ''ok''),
                                            (''data'', JObj [(''aqi'', JNull)])])\<rparr>)
          [] (WorkerFetchAqiData (JFloat x) (JFloat y)) (set_ui_state True a) of
     (s, r) \<Rightarrow>
       r = None
     \<and> ran s = [UpdateStatus (''Fetching AQI near ('' @ format_2f lib x @ '','' @ format_2f lib y
                                @ '')...'') ''info'' True,
                 DisplayErrorState ''Parse Error'' ''Could not process API data.'',
                 UpdateStatus ''Data parse failed.'' ''warning'' False,
                 SetUiState False]
     \<and> ui_state_calls (app s) = ui_state_calls a @ [True, False]
     \<and> fetch_btn (app s) = NORMAL"
  by (simp add: run_thread_def worker_fetch_aqi_data_def get_latest_aqi_by_coords_def
      init_null_aqi_invalid bind_exn_def read_is_valid_def after_def log_call_def Let_def
      mainloop_def set_ui_state_def update_status_def display_error_state_def)

end
